theory Spec2Isabelle
  imports Main
begin

section \<open>The PEP-517 packaging environment of tox (pep517.py)\<close>

text \<open>
  A shallow embedding of \<^verbatim>\<open>src/tox/tox_env/python/virtual_env/package/pep517.py\<close>.
  Python exceptions are values of the type \<open>exn\<close>; a computation that may raise and
  that updates the state \<open>'s\<close> has the type \<open>'s \<Rightarrow> (exn + 'a) \<times> 's\<close>, with \<open>Inl\<close> the
  raised exception. Code of other packages (pyproject_api, cachetools, the tox
  executor, the installer) is taken as a parameter wherever the file calls it; where
  such code calls back into a method that this file overrides, the call back is
  written out.
\<close>

subsection \<open>Python values and exceptions\<close>

type_synonym path = string

text \<open>Values of Python's dynamic type \<^verbatim>\<open>Any\<close>, as far as this file builds them.\<close>

datatype pyval =
    PyNone
  | PyInt int
  | PyStr string
  | PyPath path
  | PyList "pyval list"
  | PyDict "(string \<times> pyval) list"

type_synonym args = "pyval list"
type_synonym kwargs = "string \<rightharpoonup> pyval"

text \<open>
  \<^verbatim>\<open>class ToxBackendFailed(Fail, BackendFailed)\<close>: the class of a backend failure is
  either the base class of pyproject_api or the subclass of this file.
\<close>

datatype failure_class = BackendFailed_class | ToxBackendFailed_class

record backend_failed =
  cls :: failure_class
  code :: pyval
  exc_type :: pyval
  exc_msg :: pyval
  failed_out :: string
  failed_err :: string

datatype exn =
    BackendFailed backend_failed
  | SystemExit
  | KeyboardInterrupt
  | ValueError
  | TypeError string
  | AttributeError string
  | InvalidRequirement string
  | OtherError string

text \<open>A computation over the state \<open>'s\<close> that returns a value or raises.\<close>

type_synonym ('a, 's) run = "'s \<Rightarrow> (exn + 'a) \<times> 's"

definition py_return :: "'a \<Rightarrow> ('a, 's) run" where
  "py_return a s = (Inr a, s)"

definition py_raise :: "exn \<Rightarrow> ('a, 's) run" where
  "py_raise e s = (Inl e, s)"

text \<open>Sequencing: an exception of the first statement skips the rest.\<close>

definition py_bind :: "('a, 's) run \<Rightarrow> ('a \<Rightarrow> ('b, 's) run) \<Rightarrow> ('b, 's) run" where
  "py_bind m f s = (case m s of (Inl e, s') \<Rightarrow> (Inl e, s') | (Inr a, s') \<Rightarrow> f a s')"

text \<open>
  \<^verbatim>\<open>with ctx: body\<close> for a context manager that neither raises nor swallows: the
  exit action runs whether the body returns or raises.
\<close>

definition py_with :: "('s \<Rightarrow> 's) \<Rightarrow> ('s \<Rightarrow> 's) \<Rightarrow> ('a, 's) run \<Rightarrow> ('a, 's) run" where
  "py_with enter exit body s = (case body (enter s) of (r, s') \<Rightarrow> (r, exit s'))"

text \<open>
  \<^verbatim>\<open>try: body finally: fin\<close>: \<open>fin\<close> always runs; an exception of \<open>fin\<close> replaces
  the outcome of the body.
\<close>

definition py_finally :: "('a, 's) run \<Rightarrow> (unit, 's) run \<Rightarrow> ('a, 's) run" where
  "py_finally body fin s =
     (case body s of (r, s') \<Rightarrow>
        (case fin s' of (Inl e, s'') \<Rightarrow> (Inl e, s'') | (Inr _, s'') \<Rightarrow> (r, s'')))"

text \<open>\<^verbatim>\<open>try: body except SystemExit: pass\<close>.\<close>

definition except_SystemExit_pass :: "(unit, 's) run \<Rightarrow> (unit, 's) run" where
  "except_SystemExit_pass body s =
     (case body s of
        (Inl e, s') \<Rightarrow> (if e = SystemExit then (Inr (), s') else (Inl e, s'))
      | (Inr u, s') \<Rightarrow> (Inr u, s'))"

subsection \<open>Byte strings\<close>

type_synonym bytes = "char list"

definition newline :: char where
  "newline = CHR 0x0A"

text \<open>
  The search behind \<^verbatim>\<open>bytes.rpartition(sep)\<close>: the last position at which \<open>sep\<close>
  occurs in the byte string, returned as the part before it and the part after it.
  Later positions are tried first, so the occurrence found is the last one.
\<close>

fun rsplit_last :: "bytes \<Rightarrow> bytes \<Rightarrow> (bytes \<times> bytes) option" where
  "rsplit_last sep [] = (if sep = [] then Some ([], []) else None)"
| "rsplit_last sep (x # xs) =
     (case rsplit_last sep xs of
        Some (h, t) \<Rightarrow> Some (x # h, t)
      | None \<Rightarrow>
          if take (length sep) (x # xs) = sep
          then Some ([], drop (length sep) (x # xs))
          else None)"

text \<open>
  \<^verbatim>\<open>bytes.rpartition(sep)\<close>: \<open>(head, sep, tail)\<close> at the last occurrence of \<open>sep\<close>;
  \<open>(b"", b"", s)\<close> when \<open>sep\<close> does not occur; ValueError on an empty separator.
\<close>

definition rpartition :: "bytes \<Rightarrow> bytes \<Rightarrow> exn + (bytes \<times> bytes \<times> bytes)" where
  "rpartition s sep =
     (if sep = [] then Inl ValueError
      else case rsplit_last sep s of
             Some (h, t) \<Rightarrow> Inr (h, sep, t)
           | None \<Rightarrow> Inr ([], [], s))"

subsection \<open>ToxCmdStatus\<close>

text \<open>The two attributes of the executor's status that \<^verbatim>\<open>done\<close> reads.\<close>

record ExecuteStatus =
  exit_code :: "int option"
  out :: bytes

definition sentinel :: bytes where
  "sentinel = ''Backend: Wrote response ''"

text \<open>
  \<^verbatim>\<open>ToxCmdStatus.done\<close> (lines 54-61):
  \<^verbatim>\<open>
    status = self._execute_status
    if status.exit_code is not None:
        return True
    return b"\n" in status.out.rpartition(b"Backend: Wrote response ")[0]
  \<close>
  Index 0 of the triple is the part of the output before the last sentinel.
\<close>

definition ToxCmdStatus_done :: "ExecuteStatus \<Rightarrow> exn + bool" where
  "ToxCmdStatus_done status =
     (if exit_code status \<noteq> None then Inr True
      else case rpartition (out status) sentinel of
             Inl e \<Rightarrow> Inl e
           | Inr (head, _, _) \<Rightarrow> Inr (newline \<in> set head))"

subsection \<open>ToxBackendFailed\<close>

text \<open>
  The constructor of the base class, \<^verbatim>\<open>BackendFailed.__init__(self, result, out, err)\<close>
  of pyproject_api: it keeps \<open>out\<close> and \<open>err\<close> and reads the three keys of the
  dictionary \<open>result\<close>, with a default for a missing key. Both dictionaries built
  in this file carry all three keys.
\<close>

definition BackendFailed_init ::
  "failure_class \<Rightarrow> (string \<rightharpoonup> pyval) \<Rightarrow> string \<Rightarrow> string \<Rightarrow> backend_failed" where
  "BackendFailed_init c result out_text err_text =
     \<lparr>cls = c,
      code = (case result ''code'' of Some v \<Rightarrow> v | None \<Rightarrow> PyInt (- 2)),
      exc_type = (case result ''exc_type'' of Some v \<Rightarrow> v | None \<Rightarrow> PyStr ''missing Exception type''),
      exc_msg = (case result ''exc_msg'' of Some v \<Rightarrow> v | None \<Rightarrow> PyStr ''missing Exception message''),
      failed_out = out_text,
      failed_err = err_text\<rparr>"

text \<open>
  \<^verbatim>\<open>ToxBackendFailed.__init__\<close> (lines 34-47): the dictionary is rebuilt from the fields
  of the failure passed in, and handed to the base constructor with its \<open>out\<close> and
  \<open>err\<close>. (\<^verbatim>\<open>Fail.__init__\<close> sets no field read here.)
\<close>

definition ToxBackendFailed_init :: "backend_failed \<Rightarrow> backend_failed" where
  "ToxBackendFailed_init backend_failed =
     BackendFailed_init ToxBackendFailed_class
       [''code'' \<mapsto> code backend_failed,
        ''exc_type'' \<mapsto> exc_type backend_failed,
        ''exc_msg'' \<mapsto> exc_msg backend_failed]
       (failed_out backend_failed)
       (failed_err backend_failed)"

text \<open>
  The handler shared by \<^verbatim>\<open>_send\<close> and \<^verbatim>\<open>_unexpected_response\<close>:
  \<^verbatim>\<open>
    except BackendFailed as exception:
        raise exception if isinstance(exception, ToxBackendFailed)
              else ToxBackendFailed(exception) from exception
  \<close>
  \<open>rewrap\<close> is the exception raised by the handler; any other exception passes.
\<close>

definition rewrap :: "backend_failed \<Rightarrow> backend_failed" where
  "rewrap exception =
     (if cls exception = ToxBackendFailed_class then exception
      else ToxBackendFailed_init exception)"

definition except_BackendFailed :: "('a, 's) run \<Rightarrow> ('a, 's) run" where
  "except_BackendFailed body s =
     (case body s of
        (Inl e, s') \<Rightarrow>
          (case e of
             BackendFailed exception \<Rightarrow> (Inl (BackendFailed (rewrap exception)), s')
           | _ \<Rightarrow> (Inl e, s'))
      | (Inr a, s') \<Rightarrow> (Inr a, s'))"

subsection \<open>Pep517VirtualEnvFrontend._send and _unexpected_response\<close>

definition AvoidRedundant :: backend_failed where
  "AvoidRedundant =
     BackendFailed_init BackendFailed_class
       [''code'' \<mapsto> PyInt 1,
        ''exc_type'' \<mapsto> PyStr ''AvoidRedundant'',
        ''exc_msg'' \<mapsto> PyStr ''will need to build wheel either way, avoid prepare'']
       [] []"

text \<open>
  \<^verbatim>\<open>_send\<close> (lines 220-233). \<open>builds\<close> is \<^verbatim>\<open>self._tox_env.builds\<close>; \<open>super_send\<close> is
  \<^verbatim>\<open>Frontend._send\<close> of pyproject_api, which writes the request to the backend
  process and waits for the response; it is a parameter, over any state \<open>'s\<close>.
\<close>

definition send ::
  "string set \<Rightarrow> (string \<Rightarrow> kwargs \<Rightarrow> ('r, 's) run) \<Rightarrow> string \<Rightarrow> kwargs \<Rightarrow> ('r, 's) run" where
  "send builds super_send cmd kw =
     except_BackendFailed
       (if cmd = ''prepare_metadata_for_build_wheel'' \<and> ''wheel'' \<in> builds
        then py_raise (BackendFailed AvoidRedundant)
        else super_send cmd kw)"

text \<open>
  \<^verbatim>\<open>_unexpected_response\<close> (lines 256-260); \<open>super_unexpected_response\<close> is the method of
  pyproject_api with its five arguments applied.
\<close>

definition unexpected_response :: "(unit, 's) run \<Rightarrow> (unit, 's) run" where
  "unexpected_response super_unexpected_response =
     except_BackendFailed super_unexpected_response"

subsection \<open>Requirements, packages, build results\<close>

text \<open>A parsed \<^verbatim>\<open>packaging.requirements.Requirement\<close>, named by its text.\<close>

datatype requirement = Requirement_of string

datatype Package =
    WheelPackage path "requirement list"
  | SdistPackage path "requirement list"
  | DevLegacyPackage path "requirement list"

text \<open>
  What \<^verbatim>\<open>build_wheel\<close> and \<^verbatim>\<open>build_sdist\<close> of pyproject_api return: the named tuples
  \<^verbatim>\<open>WheelResult(wheel, out, err)\<close> and \<^verbatim>\<open>SdistResult(sdist, out, err)\<close>. Reading the
  attribute of the other tuple raises AttributeError.
\<close>

datatype build_result = WheelResult path string string | SdistResult path string string

definition attr_wheel :: "build_result \<Rightarrow> (path, 's) run" where
  "attr_wheel r =
     (case r of WheelResult p _ _ \<Rightarrow> py_return p
      | SdistResult _ _ _ \<Rightarrow> py_raise (AttributeError ''wheel''))"

definition attr_sdist :: "build_result \<Rightarrow> (path, 's) run" where
  "attr_sdist r =
     (case r of SdistResult p _ _ \<Rightarrow> py_return p
      | WheelResult _ _ _ \<Rightarrow> py_raise (AttributeError ''sdist''))"

text \<open>\<^verbatim>\<open>[f(i) for i in xs]\<close> for an \<open>f\<close> that may raise: the first exception ends the loop.\<close>

fun comprehension :: "('a \<Rightarrow> exn + 'b) \<Rightarrow> 'a list \<Rightarrow> exn + 'b list" where
  "comprehension f [] = Inr []"
| "comprehension f (x # xs) =
     (case f x of
        Inl e \<Rightarrow> Inl e
      | Inr y \<Rightarrow> (case comprehension f xs of Inl e \<Rightarrow> Inl e | Inr ys \<Rightarrow> Inr (y # ys)))"

subsection \<open>The state of a Pep517VirtualEnvPackager\<close>

text \<open>The configuration values the file reads (\<^verbatim>\<open>self.conf[...]\<close>, \<^verbatim>\<open>self.core[...]\<close>, \<^verbatim>\<open>self.env_dir\<close>).\<close>

record conf =
  package_root :: path
  tox_root :: path
  pkg_dir :: path
  meta_dir :: path
  env_dir :: path

text \<open>The keys of \<^verbatim>\<open>for_env\<close> that \<^verbatim>\<open>perform_packaging\<close> reads.\<close>

record EnvConfigSet =
  package :: string
  wheel_build_env :: string
  extras :: "string set"

text \<open>
  A package environment as \<^verbatim>\<open>_wheel_build_envs\<close> holds it: this coordinator itself,
  another Pep517VirtualEnvPackager, or a package environment of another class.
\<close>

datatype env_ref = Self | Pep517_env nat | Other_env nat

datatype executor = LocalSubProcessPep517Executor

text \<open>
  The fields of Pep517VirtualEnvFrontend: the static \<^verbatim>\<open>requires\<close> of the project
  descriptor, the dictionary \<^verbatim>\<open>into\<close> behind \<^verbatim>\<open>pkg_cache\<close>, and \<^verbatim>\<open>_backend_executor_\<close>.
\<close>

record frontend =
  requires :: "requirement list"
  into :: "string \<rightharpoonup> build_result"
  backend_executor_private :: "executor option"

text \<open>
  What the coordinator does to its collaborators, in order: a ghost record. A
  frontend command is logged when the method of pyproject_api is called;
  \<open>Sent\<close> is a request handed to \<^verbatim>\<open>Frontend._send\<close>, which writes it to the backend
  process.
\<close>

datatype event =
    Frontend_created
  | Cmd string
  | Sent string
  | Setup
  | Install string
  | Mkdir path
  | Lock_acquire
  | Lock_release
  | Closed
  | Super_teardown

text \<open>
  The fields of the coordinator set by \<^verbatim>\<open>__init__\<close> (lines 73-80), the attributes of its
  base classes that the file reads, the ghost \<open>trace\<close>, and \<open>world\<close>: everything
  outside the coordinator (the backend process, the file system, other environments).
\<close>

record 'w packager =
  conf :: conf
  has_display_suspended :: bool
  wheel_build_envs :: "string \<rightharpoonup> env_ref"
  frontend_private :: "frontend option"
  builds :: "string set"
  distribution_meta :: "path option"
  package_dependencies :: "requirement list option"
  trace :: "event list"
  world :: 'w

text \<open>
  The collaborators, as parameters. Each acts on the world only. A method of another
  package that calls back into this file is not among them: it is written out below.
  \<^item> \<open>ext_create_args_from_folder\<close>: \<^verbatim>\<open>Frontend.create_args_from_folder(root)\<close> and the
    base constructor; of the created frontend the file reads \<^verbatim>\<open>requires\<close>.
  \<^item> \<open>ext_send\<close>: \<^verbatim>\<open>Frontend._send\<close>, which writes the request to the backend process.
  \<^item> \<open>ext_get_requires_for_build_wheel\<close>, \<open>ext_get_requires_for_build_sdist\<close>,
    \<open>ext_build_wheel\<close>, \<open>ext_build_sdist\<close>: the methods of pyproject_api's Frontend.
    They reach \<^verbatim>\<open>_send\<close> of this file with a command it passes on unchanged; the first
    two return the attribute the file reads (\<^verbatim>\<open>.requires\<close>).
  \<^item> \<open>ext_check_metadata_dir\<close>, \<open>ext_metadata_from_wheel\<close>, \<open>ext_unexpected_response\<close>:
    the parts of pyproject_api's \<^verbatim>\<open>prepare_metadata_for_build_wheel\<close> that stay outside this
    file: the check of the metadata directory, the reading of the \<^verbatim>\<open>.dist-info\<close> name out
    of a built wheel, and \<^verbatim>\<open>Frontend._unexpected_response\<close>.
  \<^item> \<open>ext_setup_pending\<close>, \<open>ext_setup\<close>, \<open>ext_super_setup_env\<close>, \<open>ext_install\<close>: the parts
    of \<^verbatim>\<open>self.setup()\<close> outside this file: whether the base class still has to set the
    environment up, the rest of its setup, \<^verbatim>\<open>super()._setup_env()\<close> and
    \<^verbatim>\<open>self.installer.install\<close>.
  \<^item> \<open>ext_super_teardown\<close>: \<^verbatim>\<open>super()._teardown()\<close>.
  \<^item> \<open>ext_is_alive\<close>, \<open>ext_close\<close>: the executor's \<^verbatim>\<open>is_alive\<close> and \<^verbatim>\<open>close()\<close>.
  \<^item> \<open>ext_mkdir\<close>: \<^verbatim>\<open>Path.mkdir(exist_ok=True)\<close>.
  \<^item> \<open>ext_dist_requires\<close>: \<^verbatim>\<open>Distribution.at(path).requires\<close>, None or a list.
  \<^item> \<open>ext_Requirement\<close>: the parser \<^verbatim>\<open>Requirement(i)\<close>.
  \<^item> \<open>ext_dependencies_with_extras\<close>: the function of \<^verbatim>\<open>.util\<close>.
  \<^item> \<open>w_get_package_dependencies\<close>, \<open>w_perform_packaging\<close>, \<open>w_display_enter\<close>,
    \<open>w_display_exit\<close>: the methods of another package environment \<^verbatim>\<open>w_env\<close>.
\<close>

record 'w collab =
  ext_create_args_from_folder :: "path \<Rightarrow> 'w \<Rightarrow> (exn + requirement list) \<times> 'w"
  ext_send :: "string \<Rightarrow> kwargs \<Rightarrow> 'w \<Rightarrow> (exn + pyval \<times> string \<times> string) \<times> 'w"
  ext_get_requires_for_build_wheel :: "'w \<Rightarrow> (exn + requirement list) \<times> 'w"
  ext_get_requires_for_build_sdist :: "'w \<Rightarrow> (exn + requirement list) \<times> 'w"
  ext_build_wheel :: "args \<Rightarrow> kwargs \<Rightarrow> 'w \<Rightarrow> (exn + path \<times> string \<times> string) \<times> 'w"
  ext_build_sdist :: "args \<Rightarrow> kwargs \<Rightarrow> 'w \<Rightarrow> (exn + path \<times> string \<times> string) \<times> 'w"
  ext_check_metadata_dir :: "path \<Rightarrow> 'w \<Rightarrow> (exn + unit) \<times> 'w"
  ext_metadata_from_wheel :: "path \<Rightarrow> path \<Rightarrow> 'w \<Rightarrow> (exn + string) \<times> 'w"
  ext_unexpected_response :: "string \<Rightarrow> pyval \<Rightarrow> 'w \<Rightarrow> (exn + unit) \<times> 'w"
  ext_setup_pending :: "'w \<Rightarrow> bool"
  ext_setup :: "'w \<Rightarrow> (exn + unit) \<times> 'w"
  ext_super_setup_env :: "'w \<Rightarrow> (exn + unit) \<times> 'w"
  ext_install :: "requirement list \<Rightarrow> string \<Rightarrow> string \<Rightarrow> 'w \<Rightarrow> (exn + unit) \<times> 'w"
  ext_super_teardown :: "'w \<Rightarrow> (exn + unit) \<times> 'w"
  ext_is_alive :: "'w \<Rightarrow> bool"
  ext_close :: "'w \<Rightarrow> (exn + unit) \<times> 'w"
  ext_mkdir :: "path \<Rightarrow> 'w \<Rightarrow> (exn + unit) \<times> 'w"
  ext_dist_requires :: "path \<Rightarrow> 'w \<Rightarrow> string list option"
  ext_Requirement :: "string \<Rightarrow> exn + requirement"
  ext_dependencies_with_extras :: "requirement list \<Rightarrow> string set \<Rightarrow> requirement list"
  w_get_package_dependencies :: "env_ref \<Rightarrow> 'w \<Rightarrow> (exn + requirement list) \<times> 'w"
  w_perform_packaging :: "env_ref \<Rightarrow> EnvConfigSet \<Rightarrow> 'w \<Rightarrow> (exn + Package list) \<times> 'w"
  w_display_enter :: "env_ref \<Rightarrow> bool \<Rightarrow> 'w \<Rightarrow> 'w"
  w_display_exit :: "env_ref \<Rightarrow> bool \<Rightarrow> 'w \<Rightarrow> 'w"

text \<open>A call of a collaborator: it acts on the world, and the events are logged.\<close>

definition ext_call :: "event list \<Rightarrow> ('w \<Rightarrow> (exn + 'a) \<times> 'w) \<Rightarrow> ('a, 'w packager) run" where
  "ext_call evs f s =
     (case f (world s) of (r, w') \<Rightarrow> (r, s\<lparr>world := w', trace := trace s @ evs\<rparr>))"

definition log_event :: "event \<Rightarrow> 'w packager \<Rightarrow> 'w packager" where
  "log_event ev s = s\<lparr>trace := trace s @ [ev]\<rparr>"

text \<open>
  \<^verbatim>\<open>with self._pkg_lock:\<close>. The lock is reentrant and the model is sequential, so
  acquiring never blocks; the acquisition and the release are logged.
\<close>

definition with_pkg_lock :: "('a, 'w packager) run \<Rightarrow> ('a, 'w packager) run" where
  "with_pkg_lock body = py_with (log_event Lock_acquire) (log_event Lock_release) body"

text \<open>\<^verbatim>\<open>Pep517VirtualEnvPackager.__init__\<close> (lines 73-80).\<close>

definition Pep517VirtualEnvPackager_init ::
  "conf \<Rightarrow> bool \<Rightarrow> (string \<rightharpoonup> env_ref) \<Rightarrow> 'w \<Rightarrow> 'w packager" where
  "Pep517VirtualEnvPackager_init c suspended envs w =
     \<lparr>conf = c, has_display_suspended = suspended, wheel_build_envs = envs,
      frontend_private = None, builds = {}, distribution_meta = None,
      package_dependencies = None, trace = [], world = w\<rparr>"

subsection \<open>Pep517VirtualEnvFrontend\<close>

text \<open>
  The property \<^verbatim>\<open>_frontend\<close> (lines 86-90) with the constructor (lines 207-214): the
  frontend is created at the first access, with an empty \<^verbatim>\<open>into\<close> and no executor.
\<close>

definition frontend_prop :: "'w collab \<Rightarrow> (frontend, 'w packager) run" where
  "frontend_prop E s =
     (case frontend_private s of
        Some f \<Rightarrow> (Inr f, s)
      | None \<Rightarrow>
          py_bind
            (ext_call [Frontend_created] (ext_create_args_from_folder E (package_root (conf s))))
            (\<lambda>reqs s'.
               (Inr \<lparr>requires = reqs, into = Map.empty, backend_executor_private = None\<rparr>,
                s'\<lparr>frontend_private :=
                     Some \<lparr>requires = reqs, into = Map.empty, backend_executor_private = None\<rparr>\<rparr>))
            s)"

text \<open>
  Line 212: \<^verbatim>\<open>key=lambda *args, **kwargs: "wheel" if "wheel_directory" in kwargs else "sdist"\<close>.
\<close>

definition pkg_cache_key :: "args \<Rightarrow> kwargs \<Rightarrow> string" where
  "pkg_cache_key a kw = (if ''wheel_directory'' \<in> dom kw then ''wheel'' else ''sdist'')"

text \<open>
  The dictionary \<^verbatim>\<open>into\<close> of the frontend. The wrapped methods belong to the frontend
  object, so they run only once it exists.
\<close>

definition cache_get :: "'w packager \<Rightarrow> string \<Rightarrow> build_result option" where
  "cache_get s k = (case frontend_private s of None \<Rightarrow> None | Some f \<Rightarrow> into f k)"

definition cache_set :: "string \<Rightarrow> build_result \<Rightarrow> 'w packager \<Rightarrow> 'w packager" where
  "cache_set k v s =
     s\<lparr>frontend_private := map_option (\<lambda>f. f\<lparr>into := (into f)(k \<mapsto> v)\<rparr>) (frontend_private s)\<rparr>"

text \<open>
  \<^verbatim>\<open>cachetools.cached(into, key=key)(func)\<close> over a plain dictionary: the key is looked
  up; on a miss the function runs and, if it returns, its value is stored under the
  key. An exception of the function stores nothing.
\<close>

definition cached ::
  "(args \<Rightarrow> kwargs \<Rightarrow> string) \<Rightarrow> (args \<Rightarrow> kwargs \<Rightarrow> (build_result, 'w packager) run)
   \<Rightarrow> args \<Rightarrow> kwargs \<Rightarrow> (build_result, 'w packager) run" where
  "cached key func a kw s =
     (case cache_get s (key a kw) of
        Some v \<Rightarrow> (Inr v, s)
      | None \<Rightarrow>
          (case func a kw s of
             (Inl e, s') \<Rightarrow> (Inl e, s')
           | (Inr v, s') \<Rightarrow> (Inr v, cache_set (key a kw) v s')))"

text \<open>The methods of pyproject_api that lines 213-214 wrap.\<close>

definition Frontend_build_wheel ::
  "'w collab \<Rightarrow> args \<Rightarrow> kwargs \<Rightarrow> (build_result, 'w packager) run" where
  "Frontend_build_wheel E a kw =
     py_bind (ext_call [Cmd ''build_wheel''] (ext_build_wheel E a kw))
       (\<lambda>(p, out_text, err_text). py_return (WheelResult p out_text err_text))"

definition Frontend_build_sdist ::
  "'w collab \<Rightarrow> args \<Rightarrow> kwargs \<Rightarrow> (build_result, 'w packager) run" where
  "Frontend_build_sdist E a kw =
     py_bind (ext_call [Cmd ''build_sdist''] (ext_build_sdist E a kw))
       (\<lambda>(p, out_text, err_text). py_return (SdistResult p out_text err_text))"

text \<open>
  Lines 213-214: \<^verbatim>\<open>self.build_wheel = pkg_cache(self.build_wheel)\<close> and
  \<^verbatim>\<open>self.build_sdist = pkg_cache(self.build_sdist)\<close>, with one \<^verbatim>\<open>pkg_cache\<close> for both.
\<close>

definition build_wheel ::
  "'w collab \<Rightarrow> args \<Rightarrow> kwargs \<Rightarrow> (build_result, 'w packager) run" where
  "build_wheel E = cached pkg_cache_key (Frontend_build_wheel E)"

definition build_sdist ::
  "'w collab \<Rightarrow> args \<Rightarrow> kwargs \<Rightarrow> (build_result, 'w packager) run" where
  "build_sdist E = cached pkg_cache_key (Frontend_build_sdist E)"

text \<open>The property \<^verbatim>\<open>backend_executor\<close> (lines 262-276), read on an existing frontend.\<close>

definition backend_executor :: "(executor, 'w packager) run" where
  "backend_executor s =
     (case frontend_private s of
        None \<Rightarrow> (Inl (AttributeError ''backend_executor''), s)
      | Some f \<Rightarrow>
          (case backend_executor_private f of
             Some x \<Rightarrow> (Inr x, s)
           | None \<Rightarrow>
               (Inr LocalSubProcessPep517Executor,
                s\<lparr>frontend_private :=
                    Some (f\<lparr>backend_executor_private := Some LocalSubProcessPep517Executor\<rparr>)\<rparr>)))"

text \<open>\<^verbatim>\<open>self._frontend._send(cmd, **kwargs)\<close>: \<^verbatim>\<open>_send\<close> of this file over the coordinator's state.\<close>

definition frontend_send ::
  "'w collab \<Rightarrow> string \<Rightarrow> kwargs \<Rightarrow> (pyval \<times> string \<times> string, 'w packager) run" where
  "frontend_send E cmd kw s =
     send (builds s) (\<lambda>c k. ext_call [Sent c] (ext_send E c k)) cmd kw s"

subsection \<open>Pep517VirtualEnvPackager\<close>

text \<open>\<^verbatim>\<open>_teardown\<close> (lines 130-140). The property never returns None, so the test of line 132 holds.\<close>

definition teardown :: "'w collab \<Rightarrow> (unit, 'w packager) run" where
  "teardown E =
     py_bind (frontend_prop E) (\<lambda>_.
     py_bind backend_executor (\<lambda>executor.
     py_bind
       (py_finally
          (except_SystemExit_pass
             (\<lambda>s. if ext_is_alive E (world s)
                  then py_bind (frontend_send E ''_exit'' Map.empty) (\<lambda>_. py_return ()) s
                  else py_return () s))
          (ext_call [Closed] (ext_close E)))
       (\<lambda>_. ext_call [Super_teardown] (ext_super_teardown E))))"

text \<open>The property \<^verbatim>\<open>meta_folder\<close> (lines 111-115).\<close>

definition meta_folder :: "'w collab \<Rightarrow> (path, 'w packager) run" where
  "meta_folder E s =
     py_bind (ext_call [Mkdir (meta_dir (conf s))] (ext_mkdir E (meta_dir (conf s))))
       (\<lambda>_. py_return (meta_dir (conf s))) s"

text \<open>The property \<^verbatim>\<open>_wheel_config_settings\<close> (lines 198-200); the path is joined with a slash.\<close>

definition wheel_config_settings :: "'w packager \<Rightarrow> pyval" where
  "wheel_config_settings s =
     PyDict [(''--global-option'', PyList [PyStr ''--bdist-dir'', PyStr (env_dir (conf s) @ ''/build'')])]"

text \<open>\<^verbatim>\<open>_wheel_directory\<close> (lines 278-280): the context manager yields \<^verbatim>\<open>self._tox_env.pkg_dir\<close>.\<close>

definition wheel_directory :: "'w packager \<Rightarrow> path" where
  "wheel_directory s = pkg_dir (conf s)"

text \<open>\<^verbatim>\<open>try: body except BackendFailed: handler\<close>; a subclass is caught too.\<close>

definition try_except_BackendFailed :: "('a, 's) run \<Rightarrow> ('a, 's) run \<Rightarrow> ('a, 's) run" where
  "try_except_BackendFailed body handler s =
     (case body s of
        (Inl e, s') \<Rightarrow> (case e of BackendFailed _ \<Rightarrow> handler s' | _ \<Rightarrow> (Inl e, s'))
      | (Inr a, s') \<Rightarrow> (Inr a, s'))"

text \<open>
  \<^verbatim>\<open>Frontend._metadata_from_built_wheel\<close> of pyproject_api, written out because it calls
  back into this file: it builds the wheel through \<^verbatim>\<open>self.build_wheel\<close>, which line 213
  has wrapped with the cache, in the directory that \<^verbatim>\<open>_wheel_directory\<close> yields, and
  reads the name of the \<^verbatim>\<open>.dist-info\<close> folder out of the wheel.
\<close>

definition metadata_from_built_wheel ::
  "'w collab \<Rightarrow> pyval \<Rightarrow> path \<Rightarrow> (pyval, 'w packager) run" where
  "metadata_from_built_wheel E config_settings metadata_directory s =
     py_bind
       (build_wheel E []
          [''wheel_directory'' \<mapsto> PyPath (wheel_directory s),
           ''config_settings'' \<mapsto> config_settings,
           ''metadata_directory'' \<mapsto> PyPath metadata_directory])
       (\<lambda>wheel_result.
          py_bind (attr_wheel wheel_result) (\<lambda>wheel.
          py_bind (ext_call [] (ext_metadata_from_wheel E wheel metadata_directory)) (\<lambda>basename.
          py_return (PyStr basename)))) s"

text \<open>
  \<^verbatim>\<open>Frontend.prepare_metadata_for_build_wheel\<close> of pyproject_api, written out because it
  calls back into this file: after the check of the metadata directory it sends the
  command through \<^verbatim>\<open>self._send\<close> (lines 220-233), and when that raises a BackendFailed it
  takes the metadata from a built wheel instead. A response that is not a string goes
  to \<^verbatim>\<open>self._unexpected_response\<close> (lines 256-260). The result is the attribute
  \<^verbatim>\<open>.metadata\<close>: the metadata directory joined with the name. The call of the method
  is logged as \<open>Cmd\<close>.
\<close>

definition prepare_metadata_for_build_wheel ::
  "'w collab \<Rightarrow> path \<Rightarrow> pyval \<Rightarrow> (path, 'w packager) run" where
  "prepare_metadata_for_build_wheel E metadata_directory config_settings =
     py_bind
       (ext_call [Cmd ''prepare_metadata_for_build_wheel'']
          (ext_check_metadata_dir E metadata_directory)) (\<lambda>_.
     py_bind
       (try_except_BackendFailed
          (py_bind
             (frontend_send E ''prepare_metadata_for_build_wheel''
                [''metadata_directory'' \<mapsto> PyPath metadata_directory,
                 ''config_settings'' \<mapsto> config_settings])
             (\<lambda>(basename, _, _). py_return basename))
          (metadata_from_built_wheel E config_settings metadata_directory))
       (\<lambda>basename.
          case basename of
            PyStr b \<Rightarrow> py_return (metadata_directory @ ''/'' @ b)
          | _ \<Rightarrow>
              py_bind
                (unexpected_response
                   (ext_call []
                      (ext_unexpected_response E ''prepare_metadata_for_build_wheel'' basename)))
                (\<lambda>_. py_raise (TypeError ''basename''))))"

text \<open>\<^verbatim>\<open>_setup_env\<close> (lines 121-128).\<close>

definition setup_env :: "'w collab \<Rightarrow> (unit, 'w packager) run" where
  "setup_env E =
     py_bind (ext_call [] (ext_super_setup_env E)) (\<lambda>_.
     py_bind
       (\<lambda>s. if ''wheel'' \<in> builds s
            then
              py_bind
                (py_bind (frontend_prop E) (\<lambda>_.
                   ext_call [Cmd ''get_requires_for_build_wheel'']
                     (ext_get_requires_for_build_wheel E)))
                (\<lambda>build_requires.
                   ext_call [Install ''requires_for_build_wheel'']
                     (ext_install E build_requires ''PythonPackageToxEnv''
                        ''requires_for_build_wheel'')) s
            else py_return () s) (\<lambda>_ s.
       if ''sdist'' \<in> builds s \<or> ''external'' \<in> builds s
       then
         py_bind
           (py_bind (frontend_prop E) (\<lambda>_.
              ext_call [Cmd ''get_requires_for_build_sdist'']
                (ext_get_requires_for_build_sdist E)))
           (\<lambda>build_requires.
              ext_call [Install ''requires_for_build_sdist'']
                (ext_install E build_requires ''PythonPackageToxEnv''
                   ''requires_for_build_sdist'')) s
       else py_return () s))"

text \<open>
  Modelled from the spec: \<^verbatim>\<open>ToxEnv.setup\<close> of \<^verbatim>\<open>tox/tox_env/api.py\<close>, which is not among
  the sources. The specification (section 4.4) has the environment setup ensure that
  the build-time requirements of \<^verbatim>\<open>get_requires_for_build_wheel\<close> and
  \<^verbatim>\<open>get_requires_for_build_sdist\<close> are installed: that is the hook \<^verbatim>\<open>_setup_env\<close> of this
  file. Whether a setup is still due, and what else it does, is left to the base class.
\<close>

definition tox_env_setup :: "'w collab \<Rightarrow> (unit, 'w packager) run" where
  "tox_env_setup E s =
     (if ext_setup_pending E (world s)
      then py_bind (setup_env E) (\<lambda>_. ext_call [Setup] (ext_setup E)) s
      else py_return () s)"

text \<open>\<^verbatim>\<open>_ensure_meta_present\<close> (lines 188-196).\<close>

definition ensure_meta_present :: "'w collab \<Rightarrow> (unit, 'w packager) run" where
  "ensure_meta_present E s =
     (if distribution_meta s \<noteq> None then (Inr (), s)
      else
        py_bind (tox_env_setup E) (\<lambda>_.
        py_bind (frontend_prop E) (\<lambda>_.
        py_bind (meta_folder E) (\<lambda>mf s1.
        py_bind
          (prepare_metadata_for_build_wheel E mf (wheel_config_settings s1))
          (\<lambda>dist_info s2. (Inr (), s2\<lparr>distribution_meta := Some dist_info\<rparr>))
          s1))) s)"

text \<open>
  \<^verbatim>\<open>get_package_dependencies\<close> (lines 180-186). After the block the field is set; a
  None there would reach the caller, whose use of it as a list raises TypeError.
\<close>

definition get_package_dependencies :: "'w collab \<Rightarrow> (requirement list, 'w packager) run" where
  "get_package_dependencies E =
     py_bind
       (with_pkg_lock
          (\<lambda>s. if package_dependencies s = None
               then
                 py_bind (ensure_meta_present E)
                   (\<lambda>_ s1.
                      case distribution_meta s1 of
                        None \<Rightarrow> (Inl (AttributeError ''requires''), s1)
                      | Some d \<Rightarrow>
                          (case comprehension (ext_Requirement E)
                                  (case ext_dist_requires E d (world s1) of
                                     None \<Rightarrow> [] | Some r \<Rightarrow> r) of
                             Inl e \<Rightarrow> (Inl e, s1)
                           | Inr reqs \<Rightarrow> (Inr (), s1\<lparr>package_dependencies := Some reqs\<rparr>)))
                   s
               else (Inr (), s)))
       (\<lambda>_ s. case package_dependencies s of
                 Some reqs \<Rightarrow> (Inr reqs, s)
               | None \<Rightarrow> (Inl (TypeError ''NoneType''), s))"

text \<open>\<^verbatim>\<open>requires\<close> (lines 202-203).\<close>

definition requires_method :: "'w collab \<Rightarrow> (requirement list, 'w packager) run" where
  "requires_method E = py_bind (frontend_prop E) (\<lambda>f. py_return (requires f))"

text \<open>\<^verbatim>\<open>with w_env.display_context(self._has_display_suspended):\<close>.\<close>

definition with_display :: "'w collab \<Rightarrow> env_ref \<Rightarrow> ('a, 'w packager) run \<Rightarrow> ('a, 'w packager) run" where
  "with_display E w body =
     py_with
       (\<lambda>s. s\<lparr>world := w_display_enter E w (has_display_suspended s) (world s)\<rparr>)
       (\<lambda>s. s\<lparr>world := w_display_exit E w (has_display_suspended s) (world s)\<rparr>)
       body"

text \<open>\<^verbatim>\<open>w_env is not None and w_env is not self\<close> for \<^verbatim>\<open>w_env = self._wheel_build_envs.get(...)\<close>.\<close>

definition other_wheel_env :: "EnvConfigSet \<Rightarrow> 'w packager \<Rightarrow> env_ref option" where
  "other_wheel_env for_env s =
     (case wheel_build_envs s (wheel_build_env for_env) of
        None \<Rightarrow> None
      | Some w \<Rightarrow> if w \<noteq> Self then Some w else None)"

text \<open>\<^verbatim>\<open>isinstance(w_env, Pep517VirtualEnvPackager)\<close>.\<close>

definition is_Pep517VirtualEnvPackager :: "env_ref \<Rightarrow> bool" where
  "is_Pep517VirtualEnvPackager w = (case w of Other_env _ \<Rightarrow> False | _ \<Rightarrow> True)"

text \<open>
  \<^verbatim>\<open>perform_packaging\<close>, lines 146-153: the requirements come from the other wheel
  environment when the type is wheel and there is one (an empty list when it is of
  another class), and from this coordinator otherwise.
\<close>

definition packaging_reqs :: "'w collab \<Rightarrow> EnvConfigSet \<Rightarrow> (requirement list, 'w packager) run" where
  "packaging_reqs E for_env =
     py_bind
       (\<lambda>s. if package for_env = ''wheel''
            then
              (case other_wheel_env for_env s of
                 Some w_env \<Rightarrow>
                   with_display E w_env
                     (if is_Pep517VirtualEnvPackager w_env
                      then py_bind (ext_call [] (w_get_package_dependencies E w_env))
                             (\<lambda>r. py_return (Some r))
                      else py_return (Some [])) s
               | None \<Rightarrow> py_return None s)
            else py_return None s)
       (\<lambda>reqs. case reqs of
                 None \<Rightarrow> get_package_dependencies E
               | Some r \<Rightarrow> py_return r)"

text \<open>Lines 169-175: the wheel built by this coordinator, under its lock.\<close>

definition own_build_wheel :: "'w collab \<Rightarrow> (path, 'w packager) run" where
  "own_build_wheel E =
     with_pkg_lock
       (py_bind (frontend_prop E) (\<lambda>_.
        py_bind (meta_folder E) (\<lambda>mf s.
        py_bind
          (build_wheel E []
             [''wheel_directory'' \<mapsto> PyPath (pkg_dir (conf s)),
              ''metadata_directory'' \<mapsto> PyPath mf,
              ''config_settings'' \<mapsto> wheel_config_settings s])
          attr_wheel s)))"

text \<open>Lines 161-162: the source distribution, under the lock.\<close>

definition own_build_sdist :: "'w collab \<Rightarrow> (path, 'w packager) run" where
  "own_build_sdist E =
     with_pkg_lock
       (py_bind (frontend_prop E) (\<lambda>_ s.
        py_bind
          (build_sdist E [] [''sdist_directory'' \<mapsto> PyPath (pkg_dir (conf s))])
          attr_sdist s))"

text \<open>
  \<^verbatim>\<open>perform_packaging\<close> (lines 142-178). Each branch returns the list \<^verbatim>\<open>[package]\<close>; the
  wheel branch with another environment returns that environment's list at once.
\<close>

definition perform_packaging :: "'w collab \<Rightarrow> EnvConfigSet \<Rightarrow> (Package list, 'w packager) run" where
  "perform_packaging E for_env =
     py_bind (packaging_reqs E for_env) (\<lambda>reqs.
       let deps = ext_dependencies_with_extras E reqs (extras for_env) in
       if package for_env = ''dev-legacy'' then
         py_bind (requires_method E) (\<lambda>own.
         py_bind
           (py_bind (frontend_prop E) (\<lambda>_.
              ext_call [Cmd ''get_requires_for_build_sdist''] (ext_get_requires_for_build_sdist E)))
           (\<lambda>for_sdist s.
              py_return [DevLegacyPackage (tox_root (conf s)) ((own @ for_sdist) @ deps)] s))
       else if package for_env = ''sdist'' then
         py_bind (own_build_sdist E) (\<lambda>p. py_return [SdistPackage p deps])
       else if package for_env = ''wheel'' then
         (\<lambda>s. case other_wheel_env for_env s of
                Some w_env \<Rightarrow>
                  with_display E w_env (ext_call [] (w_perform_packaging E w_env for_env)) s
              | None \<Rightarrow>
                  py_bind (own_build_wheel E) (\<lambda>p. py_return [WheelPackage p deps]) s)
       else py_raise (TypeError (''cannot handle package type '' @ package for_env)))"

subsection \<open>Counting commands, repeating calls\<close>

text \<open>How often the frontend method \<open>c\<close> has been called.\<close>

definition issued :: "string \<Rightarrow> 'w packager \<Rightarrow> nat" where
  "issued c s = length (filter (\<lambda>ev. ev = Cmd c) (trace s))"

text \<open>How often the command \<open>c\<close> has been handed to \<^verbatim>\<open>Frontend._send\<close>, that is, sent to the backend.\<close>

definition sent :: "string \<Rightarrow> 'w packager \<Rightarrow> nat" where
  "sent c s = length (filter (\<lambda>ev. ev = Sent c) (trace s))"

text \<open>
  What a step leaves alone: \<open>kept\<close> is that the configuration, the recorded builds and
  the two caches of the coordinator are as before; \<open>frame i n\<close> is that moreover the
  metadata preparation has been called \<open>i\<close> more times and sent \<open>n\<close> more times.
  \<open>holds R m\<close> is that every run of \<open>m\<close> relates the state before to the state after.
\<close>

definition kept :: "'w packager \<Rightarrow> 'w packager \<Rightarrow> bool" where
  "kept s s' =
     (conf s' = conf s \<and> has_display_suspended s' = has_display_suspended s
      \<and> wheel_build_envs s' = wheel_build_envs s \<and> builds s' = builds s
      \<and> distribution_meta s' = distribution_meta s
      \<and> package_dependencies s' = package_dependencies s)"

definition frame :: "nat \<Rightarrow> nat \<Rightarrow> 'w packager \<Rightarrow> 'w packager \<Rightarrow> bool" where
  "frame i n s s' =
     (kept s s'
      \<and> issued ''prepare_metadata_for_build_wheel'' s'
          = issued ''prepare_metadata_for_build_wheel'' s + i
      \<and> sent ''prepare_metadata_for_build_wheel'' s'
          = sent ''prepare_metadata_for_build_wheel'' s + n)"

definition holds :: "('s \<Rightarrow> 's \<Rightarrow> bool) \<Rightarrow> ('a, 's) run \<Rightarrow> bool" where
  "holds R m = (\<forall>s r s'. m s = (r, s') \<longrightarrow> R s s')"

text \<open>\<open>n\<close> calls in a row, each from the state the one before left: the outcomes and the last state.\<close>

fun repeat_calls :: "nat \<Rightarrow> ('a, 's) run \<Rightarrow> 's \<Rightarrow> (exn + 'a) list \<times> 's" where
  "repeat_calls 0 m s = ([], s)"
| "repeat_calls (Suc n) m s =
     (case m s of (r, s') \<Rightarrow>
        (case repeat_calls n m s' of (rs, s'') \<Rightarrow> (r # rs, s'')))"

subsection \<open>A concrete session\<close>

text \<open>
  Collaborators that always answer, over a world that lists what the outside was
  asked to do; a coordinator whose frontend and executor exist; and the same
  coordinator after one wheel build.
\<close>

definition demo_conf :: conf where
  "demo_conf =
     \<lparr>package_root = ''/proj'', tox_root = ''/proj'', pkg_dir = ''/proj/.tox/.pkg/dist'',
      meta_dir = ''/proj/.tox/.pkg/.meta'', env_dir = ''/proj/.tox/.pkg''\<rparr>"

definition demo_collab :: "string list collab" where
  "demo_collab =
     \<lparr>ext_create_args_from_folder = (\<lambda>root w. (Inr [Requirement_of ''setuptools''], w)),
      ext_send =
        (\<lambda>cmd kw w. (if cmd = ''_exit'' then Inl SystemExit
                     else Inr (PyStr ''demo.dist-info'', [], []), w @ [cmd])),
      ext_get_requires_for_build_wheel = (\<lambda>w. (Inr [Requirement_of ''wheel''], w)),
      ext_get_requires_for_build_sdist = (\<lambda>w. (Inr [Requirement_of ''setuptools''], w)),
      ext_build_wheel =
        (\<lambda>a kw w. (Inr (case kw ''config_settings'' of Some (PyStr c) \<Rightarrow> c | _ \<Rightarrow> ''demo.whl'', [], []),
                    w @ [''build_wheel''])),
      ext_build_sdist = (\<lambda>a kw w. (Inr (''demo.tar.gz'', [], []), w @ [''build_sdist''])),
      ext_check_metadata_dir = (\<lambda>p w. (Inr (), w)),
      ext_metadata_from_wheel = (\<lambda>wheel p w. (Inr ''demo.dist-info'', w)),
      ext_unexpected_response =
        (\<lambda>cmd got w. (Inl (BackendFailed
           \<lparr>cls = BackendFailed_class, code = PyNone, exc_type = PyStr ''TypeError'',
            exc_msg = PyStr cmd, failed_out = [], failed_err = []\<rparr>), w)),
      ext_setup_pending = (\<lambda>w. True),
      ext_setup = (\<lambda>w. (Inr (), w)),
      ext_super_setup_env = (\<lambda>w. (Inr (), w)),
      ext_install = (\<lambda>reqs of_type section w. (Inr (), w)),
      ext_super_teardown = (\<lambda>w. (Inr (), w)),
      ext_is_alive = (\<lambda>w. True),
      ext_close = (\<lambda>w. (Inr (), w @ [''close''])),
      ext_mkdir = (\<lambda>p w. (Inr (), w)),
      ext_dist_requires = (\<lambda>p w. Some [''foo>=1'']),
      ext_Requirement = (\<lambda>i. Inr (Requirement_of i)),
      ext_dependencies_with_extras = (\<lambda>reqs ex. reqs),
      w_get_package_dependencies = (\<lambda>e w. (Inr [Requirement_of ''bar''], w)),
      w_perform_packaging = (\<lambda>e f w. (Inr [WheelPackage ''other.whl'' []], w @ [''delegated''])),
      w_display_enter = (\<lambda>e b w. w),
      w_display_exit = (\<lambda>e b w. w)\<rparr>"

definition demo_started :: "string list packager" where
  "demo_started =
     (Pep517VirtualEnvPackager_init demo_conf False Map.empty [])
       \<lparr>frontend_private :=
          Some \<lparr>requires = [Requirement_of ''setuptools''], into = Map.empty,
                backend_executor_private = Some LocalSubProcessPep517Executor\<rparr>\<rparr>"

definition demo_built :: "string list packager" where
  "demo_built =
     demo_started
       \<lparr>frontend_private :=
          Some \<lparr>requires = [Requirement_of ''setuptools''],
                into = [''wheel'' \<mapsto> WheelResult ''first.whl'' [] []],
                backend_executor_private = Some LocalSubProcessPep517Executor\<rparr>,
        trace := [Cmd ''build_wheel''], world := [''build_wheel'']\<rparr>"

text \<open>
  A coordinator as \<^verbatim>\<open>__init__\<close> leaves it; the same with a wheel among its recorded
  builds; collaborators whose backend fails every command; and collaborators whose
  shutdown request is interrupted from the keyboard.
\<close>

definition demo_fresh :: "string list packager" where
  "demo_fresh = Pep517VirtualEnvPackager_init demo_conf False Map.empty []"

definition build_error :: backend_failed where
  "build_error =
     \<lparr>cls = ToxBackendFailed_class, code = PyInt 1, exc_type = PyStr ''RuntimeError'',
      exc_msg = PyStr ''broken build'', failed_out = [], failed_err = []\<rparr>"

definition demo_failing :: "string list collab" where
  "demo_failing =
     demo_collab
       \<lparr>ext_send := (\<lambda>cmd kw w. (Inl (BackendFailed build_error), w @ [cmd])),
        ext_build_wheel := (\<lambda>a kw w. (Inl (BackendFailed build_error), w @ [''build_wheel'']))\<rparr>"

definition demo_wheel_session :: "string list packager" where
  "demo_wheel_session = demo_fresh\<lparr>builds := {''wheel''}\<rparr>"

definition demo_interrupted :: "string list collab" where
  "demo_interrupted =
     demo_collab\<lparr>ext_send := (\<lambda>cmd kw w. (Inl KeyboardInterrupt, w @ [cmd]))\<rparr>"

text \<open>
  The fresh coordinator after its dependencies are resolved; two requests; and a
  coordinator whose wheel environment is another coordinator.
\<close>

definition demo_resolved :: "string list packager" where
  "demo_resolved =
     demo_fresh
       \<lparr>frontend_private :=
          Some \<lparr>requires = [Requirement_of ''setuptools''], into = Map.empty,
                backend_executor_private = None\<rparr>,
        distribution_meta := Some ''/proj/.tox/.pkg/.meta/demo.dist-info'',
        package_dependencies := Some [Requirement_of ''foo>=1''],
        trace := [Lock_acquire, Setup, Frontend_created, Mkdir ''/proj/.tox/.pkg/.meta'',
                  Cmd ''prepare_metadata_for_build_wheel'',
                  Sent ''prepare_metadata_for_build_wheel'', Lock_release],
        world := [''prepare_metadata_for_build_wheel'']\<rparr>"

definition demo_dev_legacy :: EnvConfigSet where
  "demo_dev_legacy = \<lparr>package = ''dev-legacy'', wheel_build_env = ''.pkg'', extras = {}\<rparr>"



section \<open>Completion detection\<close>

lemmas demo_defs = demo_started_def demo_built_def demo_collab_def demo_conf_def
  Pep517VirtualEnvPackager_init_def

lemma sentinel_nonempty: "sentinel \<noteq> []"
  by (simp add: sentinel_def)

text \<open>
  C9. Whenever the exit code of the backend process is set, to any value, the
  completion detector reports done, whatever the accumulated output is (the empty
  output included).
\<close>

theorem done_when_exited:
  "exit_code status \<noteq> None \<Longrightarrow> ToxCmdStatus_done status = Inr True"
  by (simp add: ToxCmdStatus_done_def)

theorem done_when_exited_witness:
  "exit_code \<lparr>exit_code = Some 3, out = []\<rparr> \<noteq> None
   \<and> ToxCmdStatus_done \<lparr>exit_code = Some 3, out = []\<rparr> = Inr True"
  using done_when_exited [of "\<lparr>exit_code = Some 3, out = []\<rparr>"] by simp

text \<open>
  What the code computes for a live process: done exactly when a newline stands
  before some occurrence of the sentinel in the output.
\<close>

lemma rsplit_last_Some:
  "rsplit_last sep xs = Some (h, t) \<Longrightarrow> xs = h @ sep @ t"
proof (induction xs arbitrary: h t)
  case Nil
  then show ?case by (simp split: if_splits)
next
  case (Cons x xs)
  show ?case
  proof (cases "rsplit_last sep xs")
    case None
    with Cons.prems have "take (length sep) (x # xs) = sep" and "h = []"
      and "t = drop (length sep) (x # xs)"
      by (simp_all split: if_splits)
    then show ?thesis by (metis append_Nil append_take_drop_id)
  next
    case (Some p)
    obtain h' t' where p: "p = (h', t')" by (cases p)
    with Some Cons.prems have "h = x # h'" and "t = t'" by simp_all
    with Cons.IH [of h' t'] Some p show ?thesis by simp
  qed
qed

lemma rsplit_last_None:
  "rsplit_last sep xs = None \<Longrightarrow> xs \<noteq> pre @ sep @ post"
proof (induction xs arbitrary: pre)
  case Nil
  then show ?case by (auto split: if_splits)
next
  case (Cons x xs)
  from Cons.prems have none: "rsplit_last sep xs = None"
    and nt: "take (length sep) (x # xs) \<noteq> sep"
    by (auto split: option.splits if_splits)
  show ?case
  proof (cases pre)
    case Nil
    show ?thesis
    proof
      assume "x # xs = pre @ sep @ post"
      with Nil have "take (length sep) (x # xs) = sep" by simp
      with nt show False by simp
    qed
  next
    case (Cons y pre')
    show ?thesis
    proof
      assume "x # xs = pre @ sep @ post"
      with Cons have "xs = pre' @ sep @ post" by simp
      with Cons.IH [OF none, of pre'] show False by simp
    qed
  qed
qed

lemma rsplit_last_is_last:
  "rsplit_last sep xs = Some (h, t) \<Longrightarrow> xs = pre @ sep @ post \<Longrightarrow> \<exists>rest. h = pre @ rest"
proof (induction xs arbitrary: h t pre)
  case Nil
  then show ?case by simp
next
  case (Cons x xs)
  show ?case
  proof (cases pre)
    case Nil
    then show ?thesis by simp
  next
    case (Cons y pre')
    with Cons.prems(2) have xs: "xs = pre' @ sep @ post" and y: "y = x" by simp_all
    from rsplit_last_None [of sep xs pre' post] xs obtain h' t'
      where some: "rsplit_last sep xs = Some (h', t')" by (cases "rsplit_last sep xs") auto
    with Cons.prems(1) have h: "h = x # h'" by simp
    from Cons.IH [OF some xs] obtain rest where "h' = pre' @ rest" by blast
    with h Cons y show ?thesis by simp
  qed
qed

lemma done_live_characterisation:
  assumes "exit_code status = None"
  shows "ToxCmdStatus_done status
     = Inr (\<exists>pre post. out status = pre @ sentinel @ post \<and> newline \<in> set pre)"
proof (cases "rsplit_last sentinel (out status)")
  case None
  then have "\<not> (\<exists>pre post. out status = pre @ sentinel @ post \<and> newline \<in> set pre)"
    using rsplit_last_None by blast
  with None assms show ?thesis
    by (simp add: ToxCmdStatus_done_def rpartition_def sentinel_nonempty)
next
  case (Some p)
  obtain h t where p: "p = (h, t)" by (cases p)
  have eq: "out status = h @ sentinel @ t"
    using Some p by (simp add: rsplit_last_Some)
  have "(\<exists>pre post. out status = pre @ sentinel @ post \<and> newline \<in> set pre) = (newline \<in> set h)"
  proof
    assume "\<exists>pre post. out status = pre @ sentinel @ post \<and> newline \<in> set pre"
    then obtain pre post where o: "out status = pre @ sentinel @ post" and n: "newline \<in> set pre"
      by blast
    from rsplit_last_is_last [OF Some [unfolded p] o] obtain rest where "h = pre @ rest" by blast
    with n show "newline \<in> set h" by simp
  next
    assume "newline \<in> set h"
    with eq show "\<exists>pre post. out status = pre @ sentinel @ post \<and> newline \<in> set pre" by blast
  qed
  with Some p assms show ?thesis
    by (simp add: ToxCmdStatus_done_def rpartition_def sentinel_nonempty)
qed

text \<open>
  C1. For a live process the specification asks for done exactly when the output
  holds the sentinel followed by a newline. The code looks for the newline before the
  last sentinel instead: with the process alive, the output
  \<^verbatim>\<open>Backend: Wrote response /x/y\n\<close> is reported not done, and the output
  \<^verbatim>\<open>log\nBackend: Wrote response /x/y\<close>, whose sentinel line is not yet terminated,
  is reported done.
\<close>

theorem done_reads_before_sentinel:
  "ToxCmdStatus_done
     \<lparr>exit_code = None, out = ''Backend: Wrote response /x/y'' @ [newline]\<rparr> = Inr False
   \<and> ToxCmdStatus_done
     \<lparr>exit_code = None, out = ''log'' @ [newline] @ ''Backend: Wrote response /x/y''\<rparr> = Inr True"
  by (simp add: ToxCmdStatus_done_def rpartition_def sentinel_def newline_def)

section \<open>Failure translation\<close>

lemma ToxBackendFailed_init_fields:
  "ToxBackendFailed_init f = f\<lparr>cls := ToxBackendFailed_class\<rparr>"
  by (simp add: ToxBackendFailed_init_def BackendFailed_init_def)

lemma rewrap_fields: "rewrap f = f\<lparr>cls := ToxBackendFailed_class\<rparr>"
  by (simp add: rewrap_def ToxBackendFailed_init_fields)

lemma except_BackendFailed_class:
  "except_BackendFailed body s = (Inl (BackendFailed f), s') \<Longrightarrow> cls f = ToxBackendFailed_class"
  by (auto simp: except_BackendFailed_def rewrap_fields split: prod.splits sum.splits exn.splits)

lemma except_BackendFailed_raised:
  "body s = (Inl (BackendFailed f), s') \<Longrightarrow>
   except_BackendFailed body s = (Inl (BackendFailed (f\<lparr>cls := ToxBackendFailed_class\<rparr>)), s')"
  by (simp add: except_BackendFailed_def rewrap_fields)

text \<open>
  C2. Every backend failure that leaves \<^verbatim>\<open>_send\<close> or \<^verbatim>\<open>_unexpected_response\<close> has the
  class ToxBackendFailed, whatever the lower level raised, and carries the code,
  exception type, exception message, stdout and stderr of the failure the lower
  level raised. Wrapping is idempotent: wrapping a wrapped failure, by the handler or
  by the constructor, gives a failure with the same five fields and the same class.
\<close>

theorem rewrap_total_idempotent:
  "(send bs super_send cmd kw s = (Inl (BackendFailed f), s')
      \<longrightarrow> cls f = ToxBackendFailed_class)
   \<and> (unexpected_response super_ur s = (Inl (BackendFailed f), s')
      \<longrightarrow> cls f = ToxBackendFailed_class)
   \<and> (super_send cmd kw s = (Inl (BackendFailed g), s')
        \<and> \<not> (cmd = ''prepare_metadata_for_build_wheel'' \<and> ''wheel'' \<in> bs)
      \<longrightarrow> send bs super_send cmd kw s
            = (Inl (BackendFailed (g\<lparr>cls := ToxBackendFailed_class\<rparr>)), s'))
   \<and> (super_ur s = (Inl (BackendFailed g), s')
      \<longrightarrow> unexpected_response super_ur s
            = (Inl (BackendFailed (g\<lparr>cls := ToxBackendFailed_class\<rparr>)), s'))
   \<and> rewrap (rewrap g) = rewrap g
   \<and> ToxBackendFailed_init (ToxBackendFailed_init g) = ToxBackendFailed_init g
   \<and> cls (rewrap g) = ToxBackendFailed_class
   \<and> code (rewrap g) = code g \<and> exc_type (rewrap g) = exc_type g
   \<and> exc_msg (rewrap g) = exc_msg g
   \<and> failed_out (rewrap g) = failed_out g \<and> failed_err (rewrap g) = failed_err g"
proof -
  have a: "send bs super_send cmd kw s = (Inl (BackendFailed f), s')
      \<longrightarrow> cls f = ToxBackendFailed_class"
    unfolding send_def by (rule impI) (erule except_BackendFailed_class)
  have b: "unexpected_response super_ur s = (Inl (BackendFailed f), s')
      \<longrightarrow> cls f = ToxBackendFailed_class"
    unfolding unexpected_response_def by (rule impI) (erule except_BackendFailed_class)
  have c: "super_send cmd kw s = (Inl (BackendFailed g), s')
        \<and> \<not> (cmd = ''prepare_metadata_for_build_wheel'' \<and> ''wheel'' \<in> bs)
      \<longrightarrow> send bs super_send cmd kw s
            = (Inl (BackendFailed (g\<lparr>cls := ToxBackendFailed_class\<rparr>)), s')"
    by (auto simp: send_def except_BackendFailed_raised)
  have d: "super_ur s = (Inl (BackendFailed g), s')
      \<longrightarrow> unexpected_response super_ur s
            = (Inl (BackendFailed (g\<lparr>cls := ToxBackendFailed_class\<rparr>)), s')"
    by (auto simp: unexpected_response_def except_BackendFailed_raised)
  show ?thesis
    using a b c d by (simp add: rewrap_fields ToxBackendFailed_init_fields)
qed

theorem rewrap_total_idempotent_witness:
  "send {} (\<lambda>c k w. (Inl (BackendFailed
        \<lparr>cls = BackendFailed_class, code = PyInt 1, exc_type = PyStr ''RuntimeError'',
         exc_msg = PyStr ''boom'', failed_out = ''o'', failed_err = ''e''\<rparr>) :: exn + pyval, w @ [c]))
      ''build_wheel'' Map.empty ([] :: string list)
    = (Inl (BackendFailed
        \<lparr>cls = ToxBackendFailed_class, code = PyInt 1, exc_type = PyStr ''RuntimeError'',
         exc_msg = PyStr ''boom'', failed_out = ''o'', failed_err = ''e''\<rparr>), [''build_wheel''])
   \<and> unexpected_response (\<lambda>w. (Inl (BackendFailed
        \<lparr>cls = BackendFailed_class, code = PyInt 1, exc_type = PyStr ''RuntimeError'',
         exc_msg = PyStr ''boom'', failed_out = ''o'', failed_err = ''e''\<rparr>), w @ [''build_wheel'']))
      ([] :: string list)
    = (Inl (BackendFailed
        \<lparr>cls = ToxBackendFailed_class, code = PyInt 1, exc_type = PyStr ''RuntimeError'',
         exc_msg = PyStr ''boom'', failed_out = ''o'', failed_err = ''e''\<rparr>), [''build_wheel''])
   \<and> rewrap (rewrap
        \<lparr>cls = BackendFailed_class, code = PyInt 1, exc_type = PyStr ''RuntimeError'',
         exc_msg = PyStr ''boom'', failed_out = ''o'', failed_err = ''e''\<rparr>)
     = \<lparr>cls = ToxBackendFailed_class, code = PyInt 1, exc_type = PyStr ''RuntimeError'',
         exc_msg = PyStr ''boom'', failed_out = ''o'', failed_err = ''e''\<rparr>"
  using rewrap_total_idempotent
    [of "{}" "\<lambda>c k w. (Inl (BackendFailed
        \<lparr>cls = BackendFailed_class, code = PyInt 1, exc_type = PyStr ''RuntimeError'',
         exc_msg = PyStr ''boom'', failed_out = ''o'', failed_err = ''e''\<rparr>) :: exn + pyval, w @ [c])"
      "''build_wheel''" Map.empty "[] :: string list"
      "\<lparr>cls = ToxBackendFailed_class, code = PyInt 1, exc_type = PyStr ''RuntimeError'',
         exc_msg = PyStr ''boom'', failed_out = ''o'', failed_err = ''e''\<rparr>"
      "[''build_wheel'']"
      "\<lambda>w. (Inl (BackendFailed
        \<lparr>cls = BackendFailed_class, code = PyInt 1, exc_type = PyStr ''RuntimeError'',
         exc_msg = PyStr ''boom'', failed_out = ''o'', failed_err = ''e''\<rparr>), w @ [''build_wheel''])"
      "\<lparr>cls = BackendFailed_class, code = PyInt 1, exc_type = PyStr ''RuntimeError'',
         exc_msg = PyStr ''boom'', failed_out = ''o'', failed_err = ''e''\<rparr>"]
  by (simp add: rewrap_def ToxBackendFailed_init_def BackendFailed_init_def)

text \<open>
  C3. When the command is \<^verbatim>\<open>prepare_metadata_for_build_wheel\<close> and "wheel" is among
  the recorded builds, \<^verbatim>\<open>_send\<close> raises the ToxBackendFailed with code 1, exception
  type "AvoidRedundant" and empty output, and the state that the lower-level send
  acts on (the backend process) is left as it was: nothing has been written to it.
\<close>

theorem send_avoids_redundant_prepare:
  "''wheel'' \<in> bs \<Longrightarrow>
   send bs super_send ''prepare_metadata_for_build_wheel'' kw s
     = (Inl (BackendFailed
          \<lparr>cls = ToxBackendFailed_class,
           code = PyInt 1,
           exc_type = PyStr ''AvoidRedundant'',
           exc_msg = PyStr ''will need to build wheel either way, avoid prepare'',
           failed_out = [],
           failed_err = []\<rparr>), s)"
  by (simp add: send_def except_BackendFailed_def py_raise_def rewrap_def AvoidRedundant_def
      ToxBackendFailed_init_def BackendFailed_init_def)

theorem send_avoids_redundant_prepare_witness:
  "''wheel'' \<in> {''wheel'', ''sdist''}
   \<and> send {''wheel'', ''sdist''} (\<lambda>c k w. (Inr (PyNone, [], []), w @ [c]))
         ''prepare_metadata_for_build_wheel'' Map.empty ([] :: string list)
       = (Inl (BackendFailed
            \<lparr>cls = ToxBackendFailed_class,
             code = PyInt 1,
             exc_type = PyStr ''AvoidRedundant'',
             exc_msg = PyStr ''will need to build wheel either way, avoid prepare'',
             failed_out = [],
             failed_err = []\<rparr>), [])"
proof -
  have h: "''wheel'' \<in> {''wheel'', ''sdist''}" by simp
  show ?thesis
    using h send_avoids_redundant_prepare [OF h,
        of "\<lambda>c k w. (Inr (PyNone, [], []), w @ [c])" Map.empty "[] :: string list"]
    by simp
qed

section \<open>The build cache\<close>

lemma ext_call_frontend: "ext_call evs f s = (r, s') \<Longrightarrow> frontend_private s' = frontend_private s"
  by (auto simp: ext_call_def split: prod.splits)

lemma cached_hit:
  "cache_get s (key a kw) = Some v \<Longrightarrow> cached key func a kw s = (Inr v, s)"
  by (simp add: cached_def)

lemma cached_fill:
  "cache_get s (key a kw) = None \<Longrightarrow> func a kw s = (Inr v, s') \<Longrightarrow>
   cached key func a kw s = (Inr v, cache_set (key a kw) v s')"
  by (simp add: cached_def)

lemma cache_get_set:
  "frontend_private s \<noteq> None \<Longrightarrow>
   cache_get (cache_set k v s) k' = (if k' = k then Some v else cache_get s k')"
  by (auto simp: cache_get_def cache_set_def split: option.splits)

lemma Frontend_build_wheel_frontend:
  "Frontend_build_wheel E a kw s = (r, s') \<Longrightarrow> frontend_private s' = frontend_private s"
  by (auto simp: Frontend_build_wheel_def py_bind_def py_return_def ext_call_def
      split: prod.splits sum.splits)

lemma Frontend_build_sdist_frontend:
  "Frontend_build_sdist E a kw s = (r, s') \<Longrightarrow> frontend_private s' = frontend_private s"
  by (auto simp: Frontend_build_sdist_def py_bind_def py_return_def ext_call_def
      split: prod.splits sum.splits)

lemma cached_then_stored:
  assumes fe: "frontend_private s \<noteq> None"
    and keep: "\<And>r s'. func a kw s = (r, s') \<Longrightarrow> frontend_private s' = frontend_private s"
    and run: "cached key func a kw s = (Inr v, s1)"
  shows "cache_get s1 (key a kw) = Some v \<and> frontend_private s1 \<noteq> None"
proof (cases "cache_get s (key a kw)")
  case (Some u)
  with run fe show ?thesis by (simp add: cached_def)
next
  case None
  obtain r s' where f: "func a kw s = (r, s')" by (cases "func a kw s")
  with run None have r: "r = Inr v" and s1: "s1 = cache_set (key a kw) v s'"
    by (auto simp: cached_def split: sum.splits)
  from keep [OF f] fe have "frontend_private s' \<noteq> None" by simp
  then show ?thesis unfolding s1 by (auto simp: cache_get_def cache_set_def)
qed

lemma pkg_cache_key_config_settings:
  "pkg_cache_key a' (kw(''config_settings'' \<mapsto> c)) = pkg_cache_key a kw"
  by (simp add: pkg_cache_key_def)


lemma cached_same_key_again:
  assumes fe: "frontend_private s \<noteq> None"
    and keep: "\<And>r s'. func a kw s = (r, s') \<Longrightarrow> frontend_private s' = frontend_private s"
    and run: "cached key func a kw s = (Inr v, s1)"
    and same: "key a' kw' = key a kw"
  shows "cached key func' a' kw' s1 = (Inr v, s1)"
  using cached_then_stored [OF fe keep run] same by (simp add: cached_def)

lemma cached_other_key:
  assumes keep: "\<And>r s'. func a kw s = (r, s') \<Longrightarrow> frontend_private s' = frontend_private s"
    and run: "cached key func a kw s = (x, s1)"
    and other: "k' \<noteq> key a kw"
  shows "cache_get s1 k' = cache_get s k'"
proof (cases "cache_get s (key a kw)")
  case (Some u)
  with run show ?thesis by (simp add: cached_def)
next
  case None
  obtain r s' where f: "func a kw s = (r, s')" by (cases "func a kw s")
  from keep [OF f] have fp: "frontend_private s' = frontend_private s" .
  from run None f have "s1 = s' \<or> (\<exists>v. s1 = cache_set (key a kw) v s')"
    by (auto simp: cached_def split: sum.splits)
  with fp other show ?thesis
    by (auto simp: cache_get_def cache_set_def split: option.splits)
qed

lemma issued_cache_set: "issued c (cache_set k v s) = issued c s"
  by (simp add: issued_def cache_set_def)

lemma Frontend_build_wheel_issued:
  "Frontend_build_wheel E a kw s = (r, s') \<Longrightarrow>
   issued ''build_wheel'' s' = issued ''build_wheel'' s + 1"
  by (auto simp: Frontend_build_wheel_def py_bind_def py_return_def ext_call_def issued_def
      split: prod.splits sum.splits)

lemma Frontend_build_sdist_issued:
  "Frontend_build_sdist E a kw s = (r, s') \<Longrightarrow>
   issued ''build_sdist'' s' = issued ''build_sdist'' s + 1"
  by (auto simp: Frontend_build_sdist_def py_bind_def py_return_def ext_call_def issued_def
      split: prod.splits sum.splits)

lemma cached_miss_runs:
  assumes "cache_get s k = None" and "key a kw = k"
    and "\<And>r s'. func a kw s = (r, s') \<Longrightarrow> issued c s' = issued c s + 1"
  shows "issued c (snd (cached key func a kw s)) = issued c s + 1"
proof -
  obtain r s' where f: "func a kw s = (r, s')" by (cases "func a kw s")
  with assms(1,2) have "snd (cached key func a kw s) = s'
      \<or> (\<exists>v. snd (cached key func a kw s) = cache_set k v s')"
    by (auto simp: cached_def split: sum.splits)
  with assms(3) [OF f] show ?thesis by (auto simp: issued_cache_set)
qed


text \<open>
  C5, as amended. The two wrapped methods share one cache whose key is whether the
  call carries the keyword \<^verbatim>\<open>wheel_directory\<close>; argument values play no role. Once a
  call of \<^verbatim>\<open>build_wheel\<close> has returned a result, a later call of \<^verbatim>\<open>build_wheel\<close> that
  differs in \<^verbatim>\<open>config_settings\<close> only, or any later call that passes
  \<^verbatim>\<open>wheel_directory\<close> the same way, returns that result and leaves the whole state as it
  is: no command is issued. A later call that passes \<^verbatim>\<open>wheel_directory\<close> the other way,
  while nothing is cached under that other key, issues the build command once more.
  The same holds of \<^verbatim>\<open>build_sdist\<close>.
\<close>

theorem build_memoized_by_keyword_shape:
  assumes "frontend_private s \<noteq> None"
  shows "(build_wheel E a kw s = (Inr r, s1) \<longrightarrow>
            build_wheel E a' (kw(''config_settings'' \<mapsto> c)) s1 = (Inr r, s1)
          \<and> ((''wheel_directory'' \<in> dom kw') = (''wheel_directory'' \<in> dom kw)
               \<longrightarrow> build_wheel E a' kw' s1 = (Inr r, s1))
          \<and> ((''wheel_directory'' \<in> dom kw') \<noteq> (''wheel_directory'' \<in> dom kw)
               \<and> cache_get s (pkg_cache_key a' kw') = None
               \<longrightarrow> issued ''build_wheel'' (snd (build_wheel E a' kw' s1))
                     = issued ''build_wheel'' s1 + 1))
       \<and> (build_sdist E a kw s = (Inr r, s1) \<longrightarrow>
            build_sdist E a' (kw(''config_settings'' \<mapsto> c)) s1 = (Inr r, s1)
          \<and> ((''wheel_directory'' \<in> dom kw') = (''wheel_directory'' \<in> dom kw)
               \<longrightarrow> build_sdist E a' kw' s1 = (Inr r, s1))
          \<and> ((''wheel_directory'' \<in> dom kw') \<noteq> (''wheel_directory'' \<in> dom kw)
               \<and> cache_get s (pkg_cache_key a' kw') = None
               \<longrightarrow> issued ''build_sdist'' (snd (build_sdist E a' kw' s1))
                     = issued ''build_sdist'' s1 + 1))"
proof -
  have same: "pkg_cache_key a' kw' = pkg_cache_key a kw"
    if "(''wheel_directory'' \<in> dom kw') = (''wheel_directory'' \<in> dom kw)"
    using that by (simp add: pkg_cache_key_def)
  have differ: "pkg_cache_key a' kw' \<noteq> pkg_cache_key a kw"
    if "(''wheel_directory'' \<in> dom kw') \<noteq> (''wheel_directory'' \<in> dom kw)"
    using that by (auto simp: pkg_cache_key_def)
  have w_hit: "build_wheel E a'' kw'' s1 = (Inr r, s1)"
    if "build_wheel E a kw s = (Inr r, s1)" "pkg_cache_key a'' kw'' = pkg_cache_key a kw"
    for a'' kw''
    unfolding build_wheel_def
  proof (rule cached_same_key_again [where func = "Frontend_build_wheel E" and a = a and kw = kw and s = s])
    show "frontend_private s \<noteq> None" by (rule assms(1))
    show "frontend_private s' = frontend_private s" if "Frontend_build_wheel E a kw s = (x, s')" for x s'
      using that by (rule Frontend_build_wheel_frontend)
    show "cached pkg_cache_key (Frontend_build_wheel E) a kw s = (Inr r, s1)"
      using that(1) by (simp add: build_wheel_def)
    show "pkg_cache_key a'' kw'' = pkg_cache_key a kw" by (rule that(2))
  qed
  have d_hit: "build_sdist E a'' kw'' s1 = (Inr r, s1)"
    if "build_sdist E a kw s = (Inr r, s1)" "pkg_cache_key a'' kw'' = pkg_cache_key a kw"
    for a'' kw''
    unfolding build_sdist_def
  proof (rule cached_same_key_again [where func = "Frontend_build_sdist E" and a = a and kw = kw and s = s])
    show "frontend_private s \<noteq> None" by (rule assms(1))
    show "frontend_private s' = frontend_private s" if "Frontend_build_sdist E a kw s = (x, s')" for x s'
      using that by (rule Frontend_build_sdist_frontend)
    show "cached pkg_cache_key (Frontend_build_sdist E) a kw s = (Inr r, s1)"
      using that(1) by (simp add: build_sdist_def)
    show "pkg_cache_key a'' kw'' = pkg_cache_key a kw" by (rule that(2))
  qed
  have w_miss: "issued ''build_wheel'' (snd (build_wheel E a' kw' s1))
      = issued ''build_wheel'' s1 + 1"
    if run: "build_wheel E a kw s = (Inr r, s1)"
      and d: "(''wheel_directory'' \<in> dom kw') \<noteq> (''wheel_directory'' \<in> dom kw)"
      and e: "cache_get s (pkg_cache_key a' kw') = None"
  proof -
    have "cache_get s1 (pkg_cache_key a' kw') = cache_get s (pkg_cache_key a' kw')"
    proof (rule cached_other_key [where func = "Frontend_build_wheel E" and a = a and kw = kw
          and key = pkg_cache_key])
      show "frontend_private s' = frontend_private s" if "Frontend_build_wheel E a kw s = (x, s')" for x s'
        using that by (rule Frontend_build_wheel_frontend)
      show "cached pkg_cache_key (Frontend_build_wheel E) a kw s = (Inr r, s1)"
        using run by (simp add: build_wheel_def)
      show "pkg_cache_key a' kw' \<noteq> pkg_cache_key a kw" by (rule differ [OF d])
    qed
    with e have "cache_get s1 (pkg_cache_key a' kw') = None" by simp
    then show ?thesis
      unfolding build_wheel_def
      by (rule cached_miss_runs) (auto dest: Frontend_build_wheel_issued)
  qed
  have d_miss: "issued ''build_sdist'' (snd (build_sdist E a' kw' s1))
      = issued ''build_sdist'' s1 + 1"
    if run: "build_sdist E a kw s = (Inr r, s1)"
      and d: "(''wheel_directory'' \<in> dom kw') \<noteq> (''wheel_directory'' \<in> dom kw)"
      and e: "cache_get s (pkg_cache_key a' kw') = None"
  proof -
    have "cache_get s1 (pkg_cache_key a' kw') = cache_get s (pkg_cache_key a' kw')"
    proof (rule cached_other_key [where func = "Frontend_build_sdist E" and a = a and kw = kw
          and key = pkg_cache_key])
      show "frontend_private s' = frontend_private s" if "Frontend_build_sdist E a kw s = (x, s')" for x s'
        using that by (rule Frontend_build_sdist_frontend)
      show "cached pkg_cache_key (Frontend_build_sdist E) a kw s = (Inr r, s1)"
        using run by (simp add: build_sdist_def)
      show "pkg_cache_key a' kw' \<noteq> pkg_cache_key a kw" by (rule differ [OF d])
    qed
    with e have "cache_get s1 (pkg_cache_key a' kw') = None" by simp
    then show ?thesis
      unfolding build_sdist_def
      by (rule cached_miss_runs) (auto dest: Frontend_build_sdist_issued)
  qed
  show ?thesis
    using w_hit d_hit w_miss d_miss same pkg_cache_key_config_settings by blast
qed


lemma demo_first_wheel:
  "build_wheel demo_collab [] [''wheel_directory'' \<mapsto> PyPath ''dist'', ''config_settings'' \<mapsto> PyStr ''first.whl''] demo_started
   = (Inr (WheelResult ''first.whl'' [] []), demo_built)"
  by (simp add: build_wheel_def cached_def cache_get_def cache_set_def demo_defs
      pkg_cache_key_def Frontend_build_wheel_def py_bind_def
      py_return_def ext_call_def)

theorem build_memoized_by_keyword_shape_witness:
  "frontend_private demo_started \<noteq> None
   \<and> build_wheel demo_collab []
        [''wheel_directory'' \<mapsto> PyPath ''dist'', ''config_settings'' \<mapsto> PyStr ''first.whl'']
        demo_started
      = (Inr (WheelResult ''first.whl'' [] []), demo_built)
   \<and> build_wheel demo_collab []
        [''wheel_directory'' \<mapsto> PyPath ''dist'', ''config_settings'' \<mapsto> PyStr ''second.whl'']
        demo_built
      = (Inr (WheelResult ''first.whl'' [] []), demo_built)
   \<and> cache_get demo_started ''sdist'' = None
   \<and> issued ''build_wheel''
        (snd (build_wheel demo_collab [PyPath ''dist'']
                [''config_settings'' \<mapsto> PyStr ''second.whl''] demo_built))
      = issued ''build_wheel'' demo_built + 1
   \<and> fst (build_sdist demo_collab [] [''sdist_directory'' \<mapsto> PyPath ''dist''] demo_started)
      = Inr (SdistResult ''demo.tar.gz'' [] [])
   \<and> fst (build_sdist demo_collab []
             [''sdist_directory'' \<mapsto> PyPath ''dist'', ''config_settings'' \<mapsto> PyStr ''x'']
             (snd (build_sdist demo_collab [] [''sdist_directory'' \<mapsto> PyPath ''dist'']
                     demo_started)))
      = Inr (SdistResult ''demo.tar.gz'' [] [])"
proof -
  have fe: "frontend_private demo_started \<noteq> None"
    by (simp add: demo_defs)
  have miss: "cache_get demo_started ''sdist'' = None"
    by (simp add: cache_get_def demo_defs)
  have sd: "fst (build_sdist demo_collab [] [''sdist_directory'' \<mapsto> PyPath ''dist''] demo_started)
      = Inr (SdistResult ''demo.tar.gz'' [] [])"
    by (simp add: build_sdist_def cached_def cache_get_def cache_set_def demo_defs
        pkg_cache_key_def Frontend_build_sdist_def py_bind_def py_return_def ext_call_def)
  have sd_run: "build_sdist demo_collab [] [''sdist_directory'' \<mapsto> PyPath ''dist''] demo_started
      = (Inr (SdistResult ''demo.tar.gz'' [] []),
         snd (build_sdist demo_collab [] [''sdist_directory'' \<mapsto> PyPath ''dist''] demo_started))"
    using sd by (metis prod.collapse)
  note W1 = build_memoized_by_keyword_shape [OF fe, where E = demo_collab and a = "[]"
      and kw = "[''wheel_directory'' \<mapsto> PyPath ''dist'', ''config_settings'' \<mapsto> PyStr ''first.whl'']"
      and r = "WheelResult ''first.whl'' [] []" and ?s1.0 = demo_built and a' = "[]"
      and c = "PyStr ''second.whl''"]
  note W = build_memoized_by_keyword_shape [OF fe, where E = demo_collab and a = "[]"
      and kw = "[''wheel_directory'' \<mapsto> PyPath ''dist'', ''config_settings'' \<mapsto> PyStr ''first.whl'']"
      and r = "WheelResult ''first.whl'' [] []" and ?s1.0 = demo_built and a' = "[PyPath ''dist'']"
      and kw' = "[''config_settings'' \<mapsto> PyStr ''second.whl'']"]
  note D = build_memoized_by_keyword_shape [OF fe, where E = demo_collab and a = "[]"
      and kw = "[''sdist_directory'' \<mapsto> PyPath ''dist'']"
      and r = "SdistResult ''demo.tar.gz'' [] []"
      and ?s1.0 = "snd (build_sdist demo_collab [] [''sdist_directory'' \<mapsto> PyPath ''dist''] demo_started)"
      and a' = "[]" and c = "PyStr ''x''" and kw' = Map.empty]
  have w2: "build_wheel demo_collab []
        [''wheel_directory'' \<mapsto> PyPath ''dist'', ''config_settings'' \<mapsto> PyStr ''second.whl'']
        demo_built
      = (Inr (WheelResult ''first.whl'' [] []), demo_built)"
    using W1 demo_first_wheel by simp
  have w3: "issued ''build_wheel''
        (snd (build_wheel demo_collab [PyPath ''dist'']
                [''config_settings'' \<mapsto> PyStr ''second.whl''] demo_built))
      = issued ''build_wheel'' demo_built + 1"
    using W demo_first_wheel miss by (simp add: pkg_cache_key_def)
  have d2: "fst (build_sdist demo_collab []
             [''sdist_directory'' \<mapsto> PyPath ''dist'', ''config_settings'' \<mapsto> PyStr ''x'']
             (snd (build_sdist demo_collab [] [''sdist_directory'' \<mapsto> PyPath ''dist'']
                     demo_started)))
      = Inr (SdistResult ''demo.tar.gz'' [] [])"
  proof -
    from D sd_run have "build_sdist demo_collab []
             [''sdist_directory'' \<mapsto> PyPath ''dist'', ''config_settings'' \<mapsto> PyStr ''x'']
             (snd (build_sdist demo_collab [] [''sdist_directory'' \<mapsto> PyPath ''dist'']
                     demo_started))
      = (Inr (SdistResult ''demo.tar.gz'' [] []),
         snd (build_sdist demo_collab [] [''sdist_directory'' \<mapsto> PyPath ''dist'']
                     demo_started))"
      by blast
    then show ?thesis by simp
  qed
  show ?thesis
    using fe demo_first_wheel w2 miss w3 sd d2 by simp
qed

text \<open>
  C5 as stated fails: the cache is not keyed by the operation. After
  \<^verbatim>\<open>build_wheel(wheel_directory=dist, config_settings=first)\<close> has returned its wheel, the
  call \<^verbatim>\<open>build_wheel(dist, config_settings=second)\<close>, with the directory as a positional
  argument, has the key "sdist": it issues a second build command and returns the
  second wheel.
\<close>

theorem build_memoized_by_kind_counterexample:
  "build_wheel demo_collab []
        [''wheel_directory'' \<mapsto> PyPath ''dist'', ''config_settings'' \<mapsto> PyStr ''first.whl'']
        demo_started
      = (Inr (WheelResult ''first.whl'' [] []), demo_built)
   \<and> fst (build_wheel demo_collab [PyPath ''dist'']
             [''config_settings'' \<mapsto> PyStr ''second.whl''] demo_built)
      = Inr (WheelResult ''second.whl'' [] [])
   \<and> issued ''build_wheel'' demo_built = 1
   \<and> issued ''build_wheel''
        (snd (build_wheel demo_collab [PyPath ''dist'']
                [''config_settings'' \<mapsto> PyStr ''second.whl''] demo_built)) = 2"
  by (simp add: build_wheel_def cached_def cache_get_def cache_set_def demo_defs
      pkg_cache_key_def Frontend_build_wheel_def py_bind_def py_return_def ext_call_def
      issued_def)


lemma cache_set_then_get:
  "frontend_private s \<noteq> None \<Longrightarrow> cache_get (cache_set k v s) k = Some v"
  by (auto simp: cache_get_def cache_set_def)

text \<open>
  C10. The key of the shared cache is "wheel" when the call carries the keyword
  \<^verbatim>\<open>wheel_directory\<close> and "sdist" otherwise, whatever the positional arguments and
  whichever of the two wrapped methods is called. A call of either method returns
  the entry under that key when there is one, with the state unchanged; on a miss
  the method called runs and its result is stored under that key.
\<close>

theorem pkg_cache_key_by_keyword_only:
  assumes k: "k = (if ''wheel_directory'' \<in> dom kw then ''wheel'' else ''sdist'')"
    and fe: "frontend_private s \<noteq> None"
  shows "pkg_cache_key a kw = k
    \<and> (cache_get s k = Some r
         \<longrightarrow> build_wheel E a kw s = (Inr r, s) \<and> build_sdist E a kw s = (Inr r, s))
    \<and> (cache_get s k = None \<and> Frontend_build_wheel E a kw s = (Inr r, s')
         \<longrightarrow> build_wheel E a kw s = (Inr r, cache_set k r s')
           \<and> cache_get (cache_set k r s') k = Some r)
    \<and> (cache_get s k = None \<and> Frontend_build_sdist E a kw s = (Inr r, s')
         \<longrightarrow> build_sdist E a kw s = (Inr r, cache_set k r s')
           \<and> cache_get (cache_set k r s') k = Some r)"
proof -
  have key: "pkg_cache_key a kw = k"
    by (simp add: pkg_cache_key_def k)
  have hit: "build_wheel E a kw s = (Inr r, s) \<and> build_sdist E a kw s = (Inr r, s)"
    if "cache_get s k = Some r"
    using that key by (simp add: build_wheel_def build_sdist_def cached_hit)
  have fill_wheel: "build_wheel E a kw s = (Inr r, cache_set k r s')
           \<and> cache_get (cache_set k r s') k = Some r"
    if "cache_get s k = None" "Frontend_build_wheel E a kw s = (Inr r, s')"
  proof -
    have "frontend_private s' \<noteq> None"
      using Frontend_build_wheel_frontend [OF that(2)] fe by simp
    then show ?thesis
      using that key by (simp add: build_wheel_def cached_fill cache_set_then_get)
  qed
  have fill_sdist: "build_sdist E a kw s = (Inr r, cache_set k r s')
           \<and> cache_get (cache_set k r s') k = Some r"
    if "cache_get s k = None" "Frontend_build_sdist E a kw s = (Inr r, s')"
  proof -
    have "frontend_private s' \<noteq> None"
      using Frontend_build_sdist_frontend [OF that(2)] fe by simp
    then show ?thesis
      using that key by (simp add: build_sdist_def cached_fill cache_set_then_get)
  qed
  show ?thesis
    using key hit fill_wheel fill_sdist by blast
qed


theorem pkg_cache_key_by_keyword_only_witness:
  "frontend_private demo_built \<noteq> None
   \<and> cache_get demo_built ''wheel'' = Some (WheelResult ''first.whl'' [] [])
   \<and> build_sdist demo_collab [] [''wheel_directory'' \<mapsto> PyPath ''dist''] demo_built
       = (Inr (WheelResult ''first.whl'' [] []), demo_built)
   \<and> frontend_private demo_started \<noteq> None
   \<and> cache_get demo_started ''sdist'' = None
   \<and> build_wheel demo_collab [PyPath ''dist''] Map.empty demo_started
       = (Inr (WheelResult ''demo.whl'' [] []),
          cache_set ''sdist'' (WheelResult ''demo.whl'' [] [])
            (demo_started\<lparr>world := [''build_wheel''], trace := [Cmd ''build_wheel'']\<rparr>))
   \<and> cache_get
        (cache_set ''sdist'' (WheelResult ''demo.whl'' [] [])
           (demo_started\<lparr>world := [''build_wheel''], trace := [Cmd ''build_wheel'']\<rparr>)) ''sdist''
       = Some (WheelResult ''demo.whl'' [] [])"
proof -
  have fe1: "frontend_private demo_built \<noteq> None" and fe2: "frontend_private demo_started \<noteq> None"
    by (simp_all add: demo_defs)
  have k1: "''wheel'' = (if ''wheel_directory'' \<in> dom [''wheel_directory'' \<mapsto> PyPath ''dist''] then ''wheel'' else ''sdist'')"
    by simp
  have k2: "''sdist'' = (if ''wheel_directory'' \<in> dom (Map.empty :: kwargs) then ''wheel'' else ''sdist'')"
    by simp
  have hit: "cache_get demo_built ''wheel'' = Some (WheelResult ''first.whl'' [] [])"
    by (simp add: cache_get_def demo_defs)
  have miss: "cache_get demo_started ''sdist'' = None"
    by (simp add: cache_get_def demo_defs)
  have run: "Frontend_build_wheel demo_collab [PyPath ''dist''] Map.empty demo_started
      = (Inr (WheelResult ''demo.whl'' [] []),
         demo_started\<lparr>world := [''build_wheel''], trace := [Cmd ''build_wheel'']\<rparr>)"
    by (simp add: Frontend_build_wheel_def py_bind_def py_return_def ext_call_def demo_defs)
  show ?thesis
    using fe1 fe2 hit miss run
      pkg_cache_key_by_keyword_only [OF k1 fe1, of "[]" "WheelResult ''first.whl'' [] []" demo_collab]
      pkg_cache_key_by_keyword_only [OF k2 fe2, of "[PyPath ''dist'']" "WheelResult ''demo.whl'' [] []"
        demo_collab "demo_started\<lparr>world := [''build_wheel''], trace := [Cmd ''build_wheel'']\<rparr>"]
    by simp
qed

section \<open>Teardown\<close>

lemma frontend_send_raises:
  "ext_send E cmd kw (world s) = (Inl e, w1) \<Longrightarrow>
   cmd \<noteq> ''prepare_metadata_for_build_wheel'' \<Longrightarrow>
   frontend_send E cmd kw s
     = (Inl (case e of BackendFailed g \<Rightarrow> BackendFailed (rewrap g) | _ \<Rightarrow> e),
        s\<lparr>world := w1, trace := trace s @ [Sent cmd]\<rparr>)"
  by (cases e) (auto simp: frontend_send_def send_def except_BackendFailed_def ext_call_def)

text \<open>
  C6, as amended. When the executor exists at teardown, the process is alive and
  sending \<^verbatim>\<open>_exit\<close> raises, the executor is closed whatever was raised. When it was
  SystemExit, the signal is swallowed: what teardown returns or raises is what
  \<^verbatim>\<open>close()\<close> and then \<^verbatim>\<open>super()._teardown()\<close> return or raise, so nothing of the
  shutdown attempt escapes. Any other exception, KeyboardInterrupt included, is not
  swallowed: once \<^verbatim>\<open>close()\<close> has returned it leaves teardown (a backend failure in its
  wrapped form), and the base teardown is not reached.
\<close>

theorem teardown_closes_and_swallows_SystemExit:
  assumes "frontend_private s = Some f" and "backend_executor_private f = Some x"
    and "ext_is_alive E (world s)"
    and "ext_send E ''_exit'' Map.empty (world s) = (Inl e, w1)"
  shows "teardown E s =
     (case ext_close E w1 of
        (Inl e', w2) \<Rightarrow> (Inl e', s\<lparr>world := w2, trace := trace s @ [Sent ''_exit'', Closed]\<rparr>)
      | (Inr u, w2) \<Rightarrow>
          if e = SystemExit
          then (case ext_super_teardown E w2 of
                  (r, w3) \<Rightarrow>
                    (r, s\<lparr>world := w3,
                          trace := trace s @ [Sent ''_exit'', Closed, Super_teardown]\<rparr>))
          else (Inl (case e of BackendFailed g \<Rightarrow> BackendFailed (rewrap g) | _ \<Rightarrow> e),
                s\<lparr>world := w2, trace := trace s @ [Sent ''_exit'', Closed]\<rparr>))"
proof -
  have snd: "frontend_send E ''_exit'' Map.empty s
      = (Inl (case e of BackendFailed g \<Rightarrow> BackendFailed (rewrap g) | _ \<Rightarrow> e),
         s\<lparr>world := w1, trace := trace s @ [Sent ''_exit'']\<rparr>)"
    using assms(4) by (simp add: frontend_send_raises)
  have sx: "((case e of BackendFailed g \<Rightarrow> BackendFailed (rewrap g) | _ \<Rightarrow> e) = SystemExit)
      = (e = SystemExit)"
    by (cases e) simp_all
  show ?thesis
    using assms(1-3) snd sx
    by (simp add: teardown_def frontend_prop_def backend_executor_def py_bind_def py_finally_def
        except_SystemExit_pass_def py_return_def ext_call_def split: prod.splits sum.splits)
qed

theorem teardown_closes_and_swallows_SystemExit_witness:
  "frontend_private demo_started
     = Some \<lparr>requires = [Requirement_of ''setuptools''], into = Map.empty,
             backend_executor_private = Some LocalSubProcessPep517Executor\<rparr>
   \<and> ext_is_alive demo_collab (world demo_started)
   \<and> ext_send demo_collab ''_exit'' Map.empty (world demo_started) = (Inl SystemExit, [''_exit''])
   \<and> teardown demo_collab demo_started
       = (Inr (), demo_started\<lparr>world := [''_exit'', ''close''],
                                 trace := [Sent ''_exit'', Closed, Super_teardown]\<rparr>)"
proof -
  have fe: "frontend_private demo_started
     = Some \<lparr>requires = [Requirement_of ''setuptools''], into = Map.empty,
             backend_executor_private = Some LocalSubProcessPep517Executor\<rparr>"
    by (simp add: demo_defs)
  have ex: "backend_executor_private
      \<lparr>requires = [Requirement_of ''setuptools''], into = Map.empty,
       backend_executor_private = Some LocalSubProcessPep517Executor\<rparr>
     = Some LocalSubProcessPep517Executor"
    by simp
  have alive: "ext_is_alive demo_collab (world demo_started)"
    by (simp add: demo_defs)
  have snd: "ext_send demo_collab ''_exit'' Map.empty (world demo_started) = (Inl SystemExit, [''_exit''])"
    by (simp add: demo_defs)
  show ?thesis
    using fe alive snd teardown_closes_and_swallows_SystemExit [OF fe ex alive snd]
    by (simp add: demo_defs)
qed

text \<open>
  C6 as stated fails for a cancellation other than SystemExit: when the shutdown
  request is interrupted from the keyboard, the executor is closed but the
  KeyboardInterrupt leaves teardown.
\<close>

theorem teardown_KeyboardInterrupt_counterexample:
  "ext_send demo_interrupted ''_exit'' Map.empty (world demo_started)
     = (Inl KeyboardInterrupt, [''_exit''])
   \<and> teardown demo_interrupted demo_started
       = (Inl KeyboardInterrupt,
          demo_started\<lparr>world := [''_exit'', ''close''], trace := [Sent ''_exit'', Closed]\<rparr>)"
  by (simp add: teardown_def frontend_prop_def backend_executor_def py_bind_def py_finally_def
      except_SystemExit_pass_def py_return_def ext_call_def frontend_send_def send_def
      except_BackendFailed_def demo_interrupted_def demo_defs)

section \<open>The dependency cache\<close>

lemma py_bind_Inr:
  "py_bind m f s = (Inr b, s') \<Longrightarrow> \<exists>a s1. m s = (Inr a, s1) \<and> f a s1 = (Inr b, s')"
  by (auto simp: py_bind_def split: prod.splits sum.splits)

lemma py_bind_cases:
  "py_bind m f s = (r, s') \<Longrightarrow>
   (\<exists>e. m s = (Inl e, s') \<and> r = Inl e) \<or> (\<exists>a s1. m s = (Inr a, s1) \<and> f a s1 = (r, s'))"
  by (auto simp: py_bind_def split: prod.splits sum.splits)

lemma kept_refl: "kept s s"
  by (simp add: kept_def)

lemma kept_trans: "kept s s1 \<Longrightarrow> kept s1 s2 \<Longrightarrow> kept s s2"
  by (simp add: kept_def)

lemma frame_refl: "frame 0 0 s s"
  by (simp add: frame_def kept_refl)

lemma frame_trans: "frame i n s s1 \<Longrightarrow> frame j m s1 s2 \<Longrightarrow> frame (i + j) (n + m) s s2"
  by (auto simp: frame_def intro: kept_trans)

lemma quiet_trans: "frame 0 0 s s1 \<Longrightarrow> frame 0 0 s1 s2 \<Longrightarrow> frame 0 0 s s2"
  using frame_trans [of 0 0 s s1 0 0 s2] by simp

lemma frame_kept: "frame i n s s' \<Longrightarrow> kept s s'"
  by (simp add: frame_def)

lemma holdsD: "holds R m \<Longrightarrow> m s = (r, s') \<Longrightarrow> R s s'"
  by (auto simp: holds_def)

lemma holds_weaken: "holds R m \<Longrightarrow> (\<And>s s'. R s s' \<Longrightarrow> Q s s') \<Longrightarrow> holds Q m"
  by (auto simp: holds_def)

lemma holds_return: "(\<And>s. R s s) \<Longrightarrow> holds R (py_return a)"
  by (simp add: holds_def py_return_def)

lemma holds_raise: "(\<And>s. R s s) \<Longrightarrow> holds R (py_raise e)"
  by (simp add: holds_def py_raise_def)

lemma holds_bind:
  assumes "\<And>a b c. R a b \<Longrightarrow> R b c \<Longrightarrow> R a c" and "holds R m" and "\<And>a. holds R (f a)"
  shows "holds R (py_bind m f)"
  unfolding holds_def
proof (intro allI impI)
  fix s r s' assume "py_bind m f s = (r, s')"
  from py_bind_cases [OF this] show "R s s'"
    using assms by (auto simp: holds_def) blast
qed

lemma holds_state: "(\<And>t. holds R (g t)) \<Longrightarrow> holds R (\<lambda>s. g s s)"
  by (auto simp: holds_def)

lemma holds_with:
  assumes "\<And>a b c. R a b \<Longrightarrow> R b c \<Longrightarrow> R a c" and "\<And>s. R s (enter s)" and "\<And>s. R s (exit s)"
    and "holds R body"
  shows "holds R (py_with enter exit body)"
  unfolding holds_def py_with_def
proof (intro allI impI)
  fix s r s' assume a: "(case body (enter s) of (r, s') \<Rightarrow> (r, exit s')) = (r, s')"
  obtain x t where b: "body (enter s) = (x, t)" by (cases "body (enter s)")
  with a have "s' = exit t" by simp
  moreover have "R (enter s) t" using assms(4) b by (rule holdsD)
  ultimately show "R s s'" using assms(1-3) by blast
qed

lemma holds_except_BackendFailed: "holds R body \<Longrightarrow> holds R (except_BackendFailed body)"
  by (auto simp: holds_def except_BackendFailed_def split: prod.splits sum.splits exn.splits)

lemma holds_try_except:
  assumes "\<And>a b c. R a b \<Longrightarrow> R b c \<Longrightarrow> R a c" and "holds R body" and "holds R handler"
  shows "holds R (try_except_BackendFailed body handler)"
  unfolding holds_def try_except_BackendFailed_def
proof (intro allI impI)
  fix s r s'
  assume a: "(case body s of
        (Inl e, s') \<Rightarrow> (case e of BackendFailed _ \<Rightarrow> handler s' | _ \<Rightarrow> (Inl e, s'))
      | (Inr a, s') \<Rightarrow> (Inr a, s')) = (r, s')"
  obtain x t where b: "body s = (x, t)" by (cases "body s")
  have 1: "R s t" using assms(2) b by (rule holdsD)
  show "R s s'"
  proof (cases "\<exists>f. x = Inl (BackendFailed f)")
    case True
    with a b have "handler t = (r, s')" by auto
    with assms(3) have "R t s'" by (rule holdsD)
    with 1 assms(1) show ?thesis by blast
  next
    case False
    with a b have "s' = t" by (auto split: sum.splits exn.splits)
    with 1 show ?thesis by simp
  qed
qed

lemma quiet_ext_call:
  "Cmd ''prepare_metadata_for_build_wheel'' \<notin> set evs \<Longrightarrow>
   Sent ''prepare_metadata_for_build_wheel'' \<notin> set evs \<Longrightarrow>
   holds (frame 0 0) (ext_call evs f)"
  by (auto simp: holds_def ext_call_def frame_def kept_def issued_def sent_def
      filter_empty_conv split: prod.splits)

lemma holds_if:
  "holds R a \<Longrightarrow> holds R b \<Longrightarrow> holds R (\<lambda>s. if c s then a s else b s)"
  by (auto simp: holds_def)

lemma quiet_bind:
  "holds (frame 0 0) m \<Longrightarrow> (\<And>a. holds (frame 0 0) (f a)) \<Longrightarrow> holds (frame 0 0) (py_bind m f)"
  by (rule holds_bind) (auto intro: quiet_trans)

lemma quiet_return: "holds (frame 0 0) (py_return a)"
  by (rule holds_return) (rule frame_refl)

lemma quiet_raise: "holds (frame 0 0) (py_raise e)"
  by (rule holds_raise) (rule frame_refl)

lemma quiet_frontend_prop: "holds (frame 0 0) (frontend_prop E)"
  by (auto simp: holds_def frontend_prop_def py_bind_def ext_call_def frame_def kept_def
      issued_def sent_def split: option.splits prod.splits sum.splits)

lemma quiet_meta_folder: "holds (frame 0 0) (meta_folder E)"
  unfolding meta_folder_def
  by (rule holds_state) (intro quiet_bind quiet_ext_call quiet_return; simp)

lemma quiet_attr_wheel: "holds (frame 0 0) (attr_wheel r)"
  unfolding attr_wheel_def by (cases r) (simp_all add: quiet_return quiet_raise)

lemma frame_cache_set: "frame 0 0 s (cache_set k v s)"
  by (simp add: frame_def kept_def cache_set_def issued_def sent_def)

lemma quiet_cached:
  assumes "\<And>a kw. holds (frame 0 0) (func a kw)"
  shows "holds (frame 0 0) (cached key func a kw)"
  unfolding holds_def cached_def
proof (intro allI impI)
  fix s r s'
  assume a: "(case cache_get s (key a kw) of
        Some v \<Rightarrow> (Inr v, s)
      | None \<Rightarrow>
          (case func a kw s of
             (Inl e, s') \<Rightarrow> (Inl e, s')
           | (Inr v, s') \<Rightarrow> (Inr v, cache_set (key a kw) v s'))) = (r, s')"
  show "frame 0 0 s s'"
  proof (cases "cache_get s (key a kw)")
    case (Some v)
    with a show ?thesis by (simp add: frame_refl)
  next
    case None
    obtain x t where b: "func a kw s = (x, t)" by (cases "func a kw s")
    have 1: "frame 0 0 s t" using assms b by (rule holdsD)
    from a None b have "s' = t \<or> (\<exists>v. s' = cache_set (key a kw) v t)"
      by (auto split: sum.splits)
    with 1 show ?thesis using frame_cache_set quiet_trans by blast
  qed
qed

lemma quiet_Frontend_build_wheel: "holds (frame 0 0) (Frontend_build_wheel E a kw)"
  unfolding Frontend_build_wheel_def
  by (intro quiet_bind quiet_ext_call) (auto simp: quiet_return split: prod.splits)

lemma quiet_build_wheel: "holds (frame 0 0) (build_wheel E a kw)"
  unfolding build_wheel_def by (rule quiet_cached) (rule quiet_Frontend_build_wheel)

lemma quiet_metadata_from_built_wheel:
  "holds (frame 0 0) (metadata_from_built_wheel E cs md)"
  unfolding metadata_from_built_wheel_def
  by (rule holds_state)
    (intro quiet_bind quiet_build_wheel quiet_attr_wheel quiet_ext_call quiet_return; simp)

lemma quiet_setup_env: "holds (frame 0 0) (setup_env E)"
proof -
  have w: "holds (frame 0 0)
      (py_bind
         (py_bind (frontend_prop E) (\<lambda>_.
            ext_call [Cmd ''get_requires_for_build_wheel''] (ext_get_requires_for_build_wheel E)))
         (\<lambda>build_requires.
            ext_call [Install ''requires_for_build_wheel'']
              (ext_install E build_requires ''PythonPackageToxEnv'' ''requires_for_build_wheel'')))"
    by (intro quiet_bind quiet_ext_call quiet_frontend_prop; simp)
  have d: "holds (frame 0 0)
      (py_bind
         (py_bind (frontend_prop E) (\<lambda>_.
            ext_call [Cmd ''get_requires_for_build_sdist''] (ext_get_requires_for_build_sdist E)))
         (\<lambda>build_requires.
            ext_call [Install ''requires_for_build_sdist'']
              (ext_install E build_requires ''PythonPackageToxEnv'' ''requires_for_build_sdist'')))"
    by (intro quiet_bind quiet_ext_call quiet_frontend_prop; simp)
  have r: "holds (frame 0 0) (py_return () :: (unit, 'a packager) run)"
    by (rule quiet_return)
  show ?thesis
    unfolding setup_env_def
    apply (rule quiet_bind)
     apply (rule quiet_ext_call; simp)
    apply (rule quiet_bind)
     apply (rule holds_if [OF w r])
    apply (rule holds_if [OF d r])
    done
qed

lemma quiet_tox_env_setup: "holds (frame 0 0) (tox_env_setup E)"
proof -
  have a: "holds (frame 0 0) (py_bind (setup_env E) (\<lambda>_. ext_call [Setup] (ext_setup E)))"
    by (intro quiet_bind quiet_ext_call quiet_setup_env; simp)
  have r: "holds (frame 0 0) (py_return () :: (unit, 'a packager) run)"
    by (rule quiet_return)
  have "tox_env_setup E = (\<lambda>s. if ext_setup_pending E (world s)
      then py_bind (setup_env E) (\<lambda>_. ext_call [Setup] (ext_setup E)) s
      else py_return () s)"
    by (rule ext) (simp add: tox_env_setup_def)
  then show ?thesis using holds_if [OF a r] by simp
qed


lemma kept_ext_call: "holds kept (ext_call evs f)"
  by (auto simp: holds_def ext_call_def kept_def split: prod.splits)

lemma quiet_kept: "holds (frame 0 0) m \<Longrightarrow> holds kept m"
  by (erule holds_weaken) (rule frame_kept)

lemma frontend_send_prepare_frame:
  "frontend_send E ''prepare_metadata_for_build_wheel'' kw s = (r, s') \<Longrightarrow>
   frame 0 (if ''wheel'' \<in> builds s then 0 else 1) s s'"
  by (auto simp: frontend_send_def send_def except_BackendFailed_def py_raise_def ext_call_def
      frame_def kept_def issued_def sent_def split: prod.splits sum.splits exn.splits if_splits)

lemma prepare_send_or_build_frame:
  assumes "try_except_BackendFailed
          (py_bind
             (frontend_send E ''prepare_metadata_for_build_wheel'' kw)
             (\<lambda>(basename, _, _). py_return basename))
          (metadata_from_built_wheel E cs md) s = (r, s')"
  shows "frame 0 (if ''wheel'' \<in> builds s then 0 else 1) s s'"
proof -
  let ?k = "if ''wheel'' \<in> builds s then 0 else 1 :: nat"
  let ?body = "py_bind (frontend_send E ''prepare_metadata_for_build_wheel'' kw)
             (\<lambda>(basename, _, _). py_return basename)"
  obtain x t where b: "?body s = (x, t)" by (cases "?body s")
  then obtain y where "frontend_send E ''prepare_metadata_for_build_wheel'' kw s = (y, t)"
    by (auto simp: py_bind_def py_return_def split: prod.splits sum.splits)
  then have 1: "frame 0 ?k s t" by (rule frontend_send_prepare_frame)
  show ?thesis
  proof (cases "\<exists>f. x = Inl (BackendFailed f)")
    case True
    with assms b have "metadata_from_built_wheel E cs md t = (r, s')"
      by (auto simp: try_except_BackendFailed_def)
    with quiet_metadata_from_built_wheel have "frame 0 0 t s'" by (rule holdsD)
    with frame_trans [OF 1 this] show ?thesis by simp
  next
    case False
    with assms b have "s' = t"
      by (auto simp: try_except_BackendFailed_def split: sum.splits exn.splits)
    with 1 show ?thesis by simp
  qed
qed

lemma quiet_basename_path:
  "holds (frame 0 0)
     (case basename of
        PyStr b \<Rightarrow> py_return (md @ ''/'' @ b)
      | _ \<Rightarrow>
          py_bind
            (unexpected_response (ext_call [] (ext_unexpected_response E c basename)))
            (\<lambda>_. py_raise (TypeError ''basename'')))"
proof -
  have u: "holds (frame 0 0)
     (py_bind (unexpected_response (ext_call [] (ext_unexpected_response E c g)))
        (\<lambda>_. py_raise (TypeError ''basename'') :: (path, 'a packager) run))" for g
    unfolding unexpected_response_def
    by (intro quiet_bind holds_except_BackendFailed quiet_ext_call quiet_raise; simp)
  show ?thesis
    by (cases basename) (simp_all add: quiet_return u)
qed

lemma prepare_frame:
  assumes "prepare_metadata_for_build_wheel E md cs s = (Inr p, s')"
  shows "frame 1 (if ''wheel'' \<in> builds s then 0 else 1) s s'"
proof -
  from py_bind_Inr [OF assms [unfolded prepare_metadata_for_build_wheel_def]]
  obtain u s1 where
    1: "ext_call [Cmd ''prepare_metadata_for_build_wheel''] (ext_check_metadata_dir E md) s
        = (Inr u, s1)"
    and r1: "py_bind
       (try_except_BackendFailed
          (py_bind
             (frontend_send E ''prepare_metadata_for_build_wheel''
                [''metadata_directory'' \<mapsto> PyPath md, ''config_settings'' \<mapsto> cs])
             (\<lambda>(basename, _, _). py_return basename))
          (metadata_from_built_wheel E cs md))
       (\<lambda>basename.
          case basename of
            PyStr b \<Rightarrow> py_return (md @ ''/'' @ b)
          | _ \<Rightarrow>
              py_bind
                (unexpected_response
                   (ext_call []
                      (ext_unexpected_response E ''prepare_metadata_for_build_wheel'' basename)))
                (\<lambda>_. py_raise (TypeError ''basename''))) s1 = (Inr p, s')"
    by blast
  from py_bind_Inr [OF r1] obtain basename s2 where
    2: "try_except_BackendFailed
          (py_bind
             (frontend_send E ''prepare_metadata_for_build_wheel''
                [''metadata_directory'' \<mapsto> PyPath md, ''config_settings'' \<mapsto> cs])
             (\<lambda>(basename, _, _). py_return basename))
          (metadata_from_built_wheel E cs md) s1 = (Inr basename, s2)"
    and 3: "(case basename of
            PyStr b \<Rightarrow> py_return (md @ ''/'' @ b)
          | _ \<Rightarrow>
              py_bind
                (unexpected_response
                   (ext_call []
                      (ext_unexpected_response E ''prepare_metadata_for_build_wheel'' basename)))
                (\<lambda>_. py_raise (TypeError ''basename''))) s2 = (Inr p, s')"
    by blast
  have f1: "frame 1 0 s s1"
    using 1 by (auto simp: ext_call_def frame_def kept_def issued_def sent_def split: prod.splits)
  then have b: "builds s1 = builds s" by (simp add: frame_def kept_def)
  have f2: "frame 0 (if ''wheel'' \<in> builds s then 0 else 1) s1 s2"
    using prepare_send_or_build_frame [OF 2] b by simp
  have f3: "frame 0 0 s2 s'"
    using quiet_basename_path 3 by (rule holdsD)
  from frame_trans [OF frame_trans [OF f1 f2] f3] show ?thesis by simp
qed

lemma kept_prepare: "holds kept (prepare_metadata_for_build_wheel E md cs)"
  unfolding prepare_metadata_for_build_wheel_def
proof (intro holds_bind [of kept] kept_ext_call)
  show "kept a c" if "kept a b" "kept b c" for a b c :: "'a packager"
    using that by (rule kept_trans)
  then show "kept a c" if "kept a b" "kept b c" for a b c :: "'a packager"
    using that by blast
  show "holds kept
     (try_except_BackendFailed
          (py_bind
             (frontend_send E ''prepare_metadata_for_build_wheel''
                [''metadata_directory'' \<mapsto> PyPath md, ''config_settings'' \<mapsto> cs])
             (\<lambda>(basename, _, _). py_return basename))
          (metadata_from_built_wheel E cs md))"
    unfolding holds_def using prepare_send_or_build_frame frame_kept by blast
  show "holds kept
     (case basename of
        PyStr b \<Rightarrow> py_return (md @ ''/'' @ b)
      | _ \<Rightarrow>
          py_bind
            (unexpected_response
               (ext_call [] (ext_unexpected_response E ''prepare_metadata_for_build_wheel'' basename)))
            (\<lambda>_. py_raise (TypeError ''basename'')))" for basename
    by (rule quiet_kept) (rule quiet_basename_path)
qed


lemma ensure_meta_present_steps:
  assumes "distribution_meta s = None" and "ensure_meta_present E s = (r, s')"
  shows "((\<exists>e. r = Inl e) \<and> frame 0 0 s s')
    \<or> (\<exists>s3 mf x s4. frame 0 0 s s3
         \<and> prepare_metadata_for_build_wheel E mf (wheel_config_settings s3) s3 = (x, s4)
         \<and> ((\<exists>e. x = Inl e \<and> r = Inl e \<and> s' = s4)
            \<or> (\<exists>d. x = Inr d \<and> r = Inr () \<and> s' = s4\<lparr>distribution_meta := Some d\<rparr>)))"
proof -
  let ?last = "\<lambda>mf s1.
        py_bind
          (prepare_metadata_for_build_wheel E mf (wheel_config_settings s1))
          (\<lambda>dist_info s2. (Inr (), s2\<lparr>distribution_meta := Some dist_info\<rparr>))
          s1"
  from assms have run: "py_bind (tox_env_setup E) (\<lambda>_.
        py_bind (frontend_prop E) (\<lambda>_.
        py_bind (meta_folder E) ?last)) s = (r, s')"
    by (simp add: ensure_meta_present_def)
  from py_bind_cases [OF run] show ?thesis
  proof (elim disjE exE conjE)
    fix e assume "tox_env_setup E s = (Inl e, s')" "r = Inl e"
    then show ?thesis using holdsD [OF quiet_tox_env_setup] by blast
  next
    fix a1 s1 assume 1: "tox_env_setup E s = (Inr a1, s1)"
      and r1: "py_bind (frontend_prop E) (\<lambda>_. py_bind (meta_folder E) ?last) s1 = (r, s')"
    have f1: "frame 0 0 s s1" using quiet_tox_env_setup 1 by (rule holdsD)
    from py_bind_cases [OF r1] show ?thesis
    proof (elim disjE exE conjE)
      fix e assume "frontend_prop E s1 = (Inl e, s')" "r = Inl e"
      then show ?thesis using holdsD [OF quiet_frontend_prop] quiet_trans [OF f1] by blast
    next
      fix a2 s2 assume 2: "frontend_prop E s1 = (Inr a2, s2)"
        and r2: "py_bind (meta_folder E) ?last s2 = (r, s')"
      have f2: "frame 0 0 s s2"
        using quiet_trans [OF f1 holdsD [OF quiet_frontend_prop 2]] .
      from py_bind_cases [OF r2] show ?thesis
      proof (elim disjE exE conjE)
        fix e assume "meta_folder E s2 = (Inl e, s')" "r = Inl e"
        then show ?thesis using holdsD [OF quiet_meta_folder] quiet_trans [OF f2] by blast
      next
        fix mf s3 assume 3: "meta_folder E s2 = (Inr mf, s3)" and r3: "?last mf s3 = (r, s')"
        have f3: "frame 0 0 s s3"
          using quiet_trans [OF f2 holdsD [OF quiet_meta_folder 3]] .
        obtain x s4 where p: "prepare_metadata_for_build_wheel E mf (wheel_config_settings s3) s3
            = (x, s4)"
          by (cases "prepare_metadata_for_build_wheel E mf (wheel_config_settings s3) s3")
        with r3 have "(\<exists>e. x = Inl e \<and> r = Inl e \<and> s' = s4)
            \<or> (\<exists>d. x = Inr d \<and> r = Inr () \<and> s' = s4\<lparr>distribution_meta := Some d\<rparr>)"
          by (cases x) (auto simp: py_bind_def)
        with f3 p show ?thesis by blast
      qed
    qed
  qed
qed

lemma ensure_meta_present_static:
  assumes "ensure_meta_present E s = (r, s')"
  shows "conf s' = conf s \<and> wheel_build_envs s' = wheel_build_envs s
   \<and> has_display_suspended s' = has_display_suspended s \<and> builds s' = builds s"
proof (cases "distribution_meta s = None")
  case False
  with assms show ?thesis by (simp add: ensure_meta_present_def)
next
  case True
  from ensure_meta_present_steps [OF True assms] show ?thesis
  proof (elim disjE exE conjE)
    assume "frame 0 0 s s'"
    then show ?thesis by (simp add: frame_def kept_def)
  next
    fix s3 mf x s4 e
    assume "frame 0 0 s s3"
      "prepare_metadata_for_build_wheel E mf (wheel_config_settings s3) s3 = (x, s4)" "s' = s4"
    then show ?thesis using holdsD [OF kept_prepare] by (fastforce simp: frame_def kept_def)
  next
    fix s3 mf x s4 d
    assume "frame 0 0 s s3"
      "prepare_metadata_for_build_wheel E mf (wheel_config_settings s3) s3 = (x, s4)"
      "s' = s4\<lparr>distribution_meta := Some d\<rparr>"
    then show ?thesis using holdsD [OF kept_prepare] by (fastforce simp: frame_def kept_def)
  qed
qed

lemma ensure_meta_present_once:
  assumes "distribution_meta s = None" and "ensure_meta_present E s = (Inr u, s')"
  shows "issued ''prepare_metadata_for_build_wheel'' s'
           = issued ''prepare_metadata_for_build_wheel'' s + 1
       \<and> sent ''prepare_metadata_for_build_wheel'' s'
           = sent ''prepare_metadata_for_build_wheel'' s + (if ''wheel'' \<in> builds s then 0 else 1)
       \<and> package_dependencies s' = package_dependencies s"
proof -
  from ensure_meta_present_steps [OF assms] obtain s3 mf s4 d where
    f: "frame 0 0 s s3"
    and p: "prepare_metadata_for_build_wheel E mf (wheel_config_settings s3) s3 = (Inr d, s4)"
    and s': "s' = s4\<lparr>distribution_meta := Some d\<rparr>"
    by auto
  from f have b: "builds s3 = builds s" by (simp add: frame_def kept_def)
  from frame_trans [OF f prepare_frame [OF p]] b
  have "frame 1 (if ''wheel'' \<in> builds s then 0 else 1) s s4" by simp
  then show ?thesis
    by (simp add: s' frame_def kept_def issued_def sent_def)
qed

lemma frontend_prop_fields:
  "frontend_prop E s = (r, s') \<Longrightarrow>
   issued c s' = issued c s
   \<and> distribution_meta s' = distribution_meta s \<and> package_dependencies s' = package_dependencies s
   \<and> conf s' = conf s \<and> wheel_build_envs s' = wheel_build_envs s
   \<and> has_display_suspended s' = has_display_suspended s \<and> builds s' = builds s"
  by (auto simp: frontend_prop_def py_bind_def ext_call_def issued_def
      split: option.splits prod.splits sum.splits)

lemma issued_log_event:
  "ev \<noteq> Cmd c \<Longrightarrow> issued c (log_event ev s) = issued c s"
  by (simp add: issued_def log_event_def)

lemma with_pkg_lock_result:
  "with_pkg_lock body s = (r, s') \<Longrightarrow>
   \<exists>s''. body (log_event Lock_acquire s) = (r, s'') \<and> s' = log_event Lock_release s''"
  by (auto simp: with_pkg_lock_def py_with_def split: prod.splits)

lemma get_package_dependencies_cached:
  "package_dependencies s = Some reqs \<Longrightarrow>
   get_package_dependencies E s = (Inr reqs, s\<lparr>trace := trace s @ [Lock_acquire, Lock_release]\<rparr>)"
  by (simp add: get_package_dependencies_def py_bind_def with_pkg_lock_def py_with_def log_event_def)

lemma get_package_dependencies_returned:
  "get_package_dependencies E s = (Inr reqs, s1) \<Longrightarrow> package_dependencies s1 = Some reqs"
  by (auto simp: get_package_dependencies_def dest!: py_bind_Inr split: option.splits)

lemma sent_log_event:
  "ev \<noteq> Sent c \<Longrightarrow> sent c (log_event ev s) = sent c s"
  by (simp add: sent_def log_event_def)

lemma get_package_dependencies_first:
  assumes dm: "distribution_meta s = None" and pd: "package_dependencies s = None"
    and run: "get_package_dependencies E s = (Inr reqs, s1)"
  shows "issued ''prepare_metadata_for_build_wheel'' s1
           = issued ''prepare_metadata_for_build_wheel'' s + 1
       \<and> sent ''prepare_metadata_for_build_wheel'' s1
           = sent ''prepare_metadata_for_build_wheel'' s + (if ''wheel'' \<in> builds s then 0 else 1)"
proof -
  let ?c = "''prepare_metadata_for_build_wheel''"
  let ?s0 = "log_event Lock_acquire s"
  from run obtain a sA where
    lk: "with_pkg_lock
          (\<lambda>s. if package_dependencies s = None
               then
                 py_bind (ensure_meta_present E)
                   (\<lambda>_ s1.
                      case distribution_meta s1 of
                        None \<Rightarrow> (Inl (AttributeError ''requires''), s1)
                      | Some d \<Rightarrow>
                          (case comprehension (ext_Requirement E)
                                  (case ext_dist_requires E d (world s1) of
                                     None \<Rightarrow> [] | Some r \<Rightarrow> r) of
                             Inl e \<Rightarrow> (Inl e, s1)
                           | Inr reqs \<Rightarrow> (Inr (), s1\<lparr>package_dependencies := Some reqs\<rparr>)))
                   s
               else (Inr (), s)) s = (Inr a, sA)"
    and fin: "(case package_dependencies sA of
                 Some reqs \<Rightarrow> (Inr reqs, sA)
               | None \<Rightarrow> (Inl (TypeError ''NoneType''), sA)) = (Inr reqs, s1)"
    unfolding get_package_dependencies_def by (blast dest: py_bind_Inr)
  from fin have s1: "s1 = sA" by (auto split: option.splits)
  from with_pkg_lock_result [OF lk] pd obtain sB where
    body: "py_bind (ensure_meta_present E)
                   (\<lambda>_ s1.
                      case distribution_meta s1 of
                        None \<Rightarrow> (Inl (AttributeError ''requires''), s1)
                      | Some d \<Rightarrow>
                          (case comprehension (ext_Requirement E)
                                  (case ext_dist_requires E d (world s1) of
                                     None \<Rightarrow> [] | Some r \<Rightarrow> r) of
                             Inl e \<Rightarrow> (Inl e, s1)
                           | Inr reqs \<Rightarrow> (Inr (), s1\<lparr>package_dependencies := Some reqs\<rparr>)))
                   ?s0 = (Inr a, sB)"
    and sA: "sA = log_event Lock_release sB"
    by (auto simp: log_event_def)
  from py_bind_Inr [OF body] obtain u sC where
    ens: "ensure_meta_present E ?s0 = (Inr u, sC)"
    and cont: "(case distribution_meta sC of
                        None \<Rightarrow> (Inl (AttributeError ''requires''), sC)
                      | Some d \<Rightarrow>
                          (case comprehension (ext_Requirement E)
                                  (case ext_dist_requires E d (world sC) of
                                     None \<Rightarrow> [] | Some r \<Rightarrow> r) of
                             Inl e \<Rightarrow> (Inl e, sC)
                           | Inr reqs \<Rightarrow> (Inr (), sC\<lparr>package_dependencies := Some reqs\<rparr>)))
               = (Inr a, sB)"
    by blast
  from cont have iB: "issued ?c sB = issued ?c sC" "sent ?c sB = sent ?c sC"
    by (auto simp: issued_def sent_def split: option.splits sum.splits)
  have dm0: "distribution_meta ?s0 = None" using dm by (simp add: log_event_def)
  have b0: "builds ?s0 = builds s" by (simp add: log_event_def)
  have iC: "issued ?c sC = issued ?c ?s0 + 1"
    "sent ?c sC = sent ?c ?s0 + (if ''wheel'' \<in> builds s then 0 else 1)"
    using ensure_meta_present_once [OF dm0 ens] b0 by simp_all
  show ?thesis
    by (simp add: s1 sA iB iC issued_log_event sent_log_event)
qed

lemma repeat_calls_cached:
  "package_dependencies s = Some reqs \<Longrightarrow>
   fst (repeat_calls n (get_package_dependencies E) s) = replicate n (Inr reqs)
   \<and> issued c (snd (repeat_calls n (get_package_dependencies E) s)) = issued c s
   \<and> sent c (snd (repeat_calls n (get_package_dependencies E) s)) = sent c s"
proof (induction n arbitrary: s)
  case 0
  then show ?case by simp
next
  case (Suc n)
  let ?s' = "s\<lparr>trace := trace s @ [Lock_acquire, Lock_release]\<rparr>"
  have step: "get_package_dependencies E s = (Inr reqs, ?s')"
    using Suc.prems by (rule get_package_dependencies_cached)
  have "package_dependencies ?s' = Some reqs" using Suc.prems by simp
  from Suc.IH [OF this] have
    "fst (repeat_calls n (get_package_dependencies E) ?s') = replicate n (Inr reqs)"
    "issued c (snd (repeat_calls n (get_package_dependencies E) ?s')) = issued c ?s'"
    "sent c (snd (repeat_calls n (get_package_dependencies E) ?s')) = sent c ?s'"
    by simp_all
  moreover have "issued c ?s' = issued c s" "sent c ?s' = sent c s"
    by (simp_all add: issued_def sent_def)
  ultimately show ?case
    using step by (auto split: prod.splits)
qed

text \<open>
  C4, as amended. From a state in which neither the metadata nor the dependencies
  are resolved, if the first call of \<^verbatim>\<open>get_package_dependencies\<close> returns a list, then
  in every sequence of two or more calls each call returns that list; the frontend
  method \<^verbatim>\<open>prepare_metadata_for_build_wheel\<close> is called exactly once, by the first call;
  and the command is sent to the backend exactly once, by the first call, when
  "wheel" is not among the recorded builds, and not at all when it is.
\<close>

theorem dependencies_resolved_once:
  assumes "distribution_meta s = None" and "package_dependencies s = None"
    and "get_package_dependencies E s = (Inr reqs, s1)"
  shows "fst (repeat_calls (Suc (Suc n)) (get_package_dependencies E) s)
           = replicate (Suc (Suc n)) (Inr reqs)
       \<and> issued ''prepare_metadata_for_build_wheel''
            (snd (repeat_calls (Suc (Suc n)) (get_package_dependencies E) s))
           = issued ''prepare_metadata_for_build_wheel'' s + 1
       \<and> issued ''prepare_metadata_for_build_wheel'' s1
           = issued ''prepare_metadata_for_build_wheel'' s + 1
       \<and> sent ''prepare_metadata_for_build_wheel''
            (snd (repeat_calls (Suc (Suc n)) (get_package_dependencies E) s))
           = sent ''prepare_metadata_for_build_wheel'' s
             + (if ''wheel'' \<in> builds s then 0 else 1)
       \<and> sent ''prepare_metadata_for_build_wheel'' s1
           = sent ''prepare_metadata_for_build_wheel'' s
             + (if ''wheel'' \<in> builds s then 0 else 1)"
proof -
  have pd1: "package_dependencies s1 = Some reqs"
    using assms(3) by (rule get_package_dependencies_returned)
  note first = get_package_dependencies_first [OF assms]
  have rest: "fst (repeat_calls (Suc n) (get_package_dependencies E) s1) = replicate (Suc n) (Inr reqs)"
    "issued ''prepare_metadata_for_build_wheel''
       (snd (repeat_calls (Suc n) (get_package_dependencies E) s1))
     = issued ''prepare_metadata_for_build_wheel'' s1"
    "sent ''prepare_metadata_for_build_wheel''
       (snd (repeat_calls (Suc n) (get_package_dependencies E) s1))
     = sent ''prepare_metadata_for_build_wheel'' s1"
    using repeat_calls_cached [OF pd1, of "Suc n" E] by simp_all
  have unfold: "repeat_calls (Suc (Suc n)) (get_package_dependencies E) s
     = (Inr reqs # fst (repeat_calls (Suc n) (get_package_dependencies E) s1),
        snd (repeat_calls (Suc n) (get_package_dependencies E) s1))"
    using assms(3) by (simp split: prod.splits)
  show ?thesis
    unfolding unfold using rest first by simp
qed

lemmas run_defs = get_package_dependencies_def ensure_meta_present_def with_pkg_lock_def
  py_with_def py_bind_def py_return_def py_raise_def log_event_def ext_call_def frontend_prop_def
  meta_folder_def wheel_config_settings_def issued_def sent_def tox_env_setup_def setup_env_def
  prepare_metadata_for_build_wheel_def try_except_BackendFailed_def frontend_send_def send_def
  except_BackendFailed_def rewrap_def metadata_from_built_wheel_def wheel_directory_def
  build_wheel_def cached_def cache_get_def cache_set_def pkg_cache_key_def
  Frontend_build_wheel_def attr_wheel_def unexpected_response_def AvoidRedundant_def
  ToxBackendFailed_init_def BackendFailed_init_def

text \<open>
  C4 as stated fails in two ways. With a wheel among the recorded builds, two calls
  in a fresh session both return the list and the command is never sent: \<^verbatim>\<open>_send\<close>
  raises before the backend is contacted and the frontend takes the metadata from a
  wheel it builds. With a backend that fails every command, two calls in a fresh
  session both raise the failure and the command is sent twice.
\<close>

theorem dependencies_resolved_once_counterexample:
  "fst (repeat_calls (Suc (Suc 0)) (get_package_dependencies demo_collab) demo_wheel_session)
     = [Inr [Requirement_of ''foo>=1''], Inr [Requirement_of ''foo>=1'']]
   \<and> sent ''prepare_metadata_for_build_wheel''
        (snd (repeat_calls (Suc (Suc 0)) (get_package_dependencies demo_collab) demo_wheel_session))
       = 0
   \<and> fst (repeat_calls (Suc (Suc 0)) (get_package_dependencies demo_failing) demo_fresh)
       = [Inl (BackendFailed build_error), Inl (BackendFailed build_error)]
   \<and> sent ''prepare_metadata_for_build_wheel''
        (snd (repeat_calls (Suc (Suc 0)) (get_package_dependencies demo_failing) demo_fresh)) = 2"
  by (simp add: run_defs demo_failing_def demo_wheel_session_def demo_fresh_def build_error_def
      demo_defs)

lemma demo_first_dependencies:
  "fst (get_package_dependencies demo_collab demo_fresh) = Inr [Requirement_of ''foo>=1'']"
  by (simp add: run_defs demo_fresh_def demo_defs)

theorem dependencies_resolved_once_witness:
  "distribution_meta demo_fresh = None \<and> package_dependencies demo_fresh = None
   \<and> fst (get_package_dependencies demo_collab demo_fresh) = Inr [Requirement_of ''foo>=1'']
   \<and> fst (repeat_calls (Suc (Suc (Suc 0))) (get_package_dependencies demo_collab) demo_fresh)
       = [Inr [Requirement_of ''foo>=1''], Inr [Requirement_of ''foo>=1''],
          Inr [Requirement_of ''foo>=1'']]
   \<and> issued ''prepare_metadata_for_build_wheel''
        (snd (repeat_calls (Suc (Suc (Suc 0))) (get_package_dependencies demo_collab) demo_fresh)) = 1
   \<and> sent ''prepare_metadata_for_build_wheel''
        (snd (repeat_calls (Suc (Suc (Suc 0))) (get_package_dependencies demo_collab) demo_fresh)) = 1"
proof -
  have dm: "distribution_meta demo_fresh = None" and pd: "package_dependencies demo_fresh = None"
    and i0: "issued ''prepare_metadata_for_build_wheel'' demo_fresh = 0"
    and s0: "sent ''prepare_metadata_for_build_wheel'' demo_fresh = 0"
    and b0: "''wheel'' \<notin> builds demo_fresh"
    by (simp_all add: demo_fresh_def demo_defs issued_def sent_def)
  have run: "get_package_dependencies demo_collab demo_fresh
      = (Inr [Requirement_of ''foo>=1''], snd (get_package_dependencies demo_collab demo_fresh))"
    using demo_first_dependencies by (metis prod.collapse)
  show ?thesis
    using dm pd i0 s0 b0 demo_first_dependencies
      dependencies_resolved_once [OF dm pd run, of "Suc 0"]
    by simp
qed

section \<open>Packaging\<close>

lemma get_package_dependencies_static:
  assumes "get_package_dependencies E s = (r, s')"
  shows "conf s' = conf s \<and> wheel_build_envs s' = wheel_build_envs s
   \<and> has_display_suspended s' = has_display_suspended s"
proof -
  let ?cont = "\<lambda>(_::unit) s1.
                      case distribution_meta s1 of
                        None \<Rightarrow> (Inl (AttributeError ''requires''), s1)
                      | Some d \<Rightarrow>
                          (case comprehension (ext_Requirement E)
                                  (case ext_dist_requires E d (world s1) of
                                     None \<Rightarrow> [] | Some r \<Rightarrow> r) of
                             Inl e \<Rightarrow> (Inl e, s1)
                           | Inr reqs \<Rightarrow> (Inr (), s1\<lparr>package_dependencies := Some reqs\<rparr>))"
  let ?body = "\<lambda>s. if package_dependencies s = None
               then py_bind (ensure_meta_present E) ?cont s
               else (Inr (), s)"
  let ?s0 = "log_event Lock_acquire s"
  from assms obtain x where "with_pkg_lock ?body s = (x, s')"
    unfolding get_package_dependencies_def
    by (auto simp: py_bind_def split: prod.splits sum.splits option.splits)
  from with_pkg_lock_result [OF this] obtain sB where
    body: "?body ?s0 = (x, sB)" and s': "s' = log_event Lock_release sB"
    by blast
  have cont: "conf t' = conf t \<and> wheel_build_envs t' = wheel_build_envs t
      \<and> has_display_suspended t' = has_display_suspended t"
    if "?cont u t = (y, t')" for u t y t'
    using that by (auto split: option.splits sum.splits)
  have "conf sB = conf ?s0 \<and> wheel_build_envs sB = wheel_build_envs ?s0
      \<and> has_display_suspended sB = has_display_suspended ?s0"
  proof (cases "package_dependencies ?s0 = None")
    case False
    with body show ?thesis by simp
  next
    case True
    with body have "py_bind (ensure_meta_present E) ?cont ?s0 = (x, sB)" by simp
    from py_bind_cases [OF this] show ?thesis
    proof (elim disjE exE conjE)
      fix e assume "ensure_meta_present E ?s0 = (Inl e, sB)"
      then show ?thesis using ensure_meta_present_static by blast
    next
      fix a sC assume e: "ensure_meta_present E ?s0 = (Inr a, sC)" and c: "?cont a sC = (x, sB)"
      from ensure_meta_present_static [OF e] cont [OF c] show ?thesis by simp
    qed
  qed
  then show ?thesis by (simp add: s' log_event_def)
qed

lemma frontend_prop_then_exists:
  "frontend_prop E s = (Inr f, s') \<Longrightarrow> frontend_private s' = Some f"
  by (auto simp: frontend_prop_def py_bind_def ext_call_def
      split: option.splits prod.splits sum.splits)

lemma frontend_prop_existing:
  "frontend_private s = Some f \<Longrightarrow> frontend_prop E s = (Inr f, s)"
  by (simp add: frontend_prop_def)

text \<open>
  C7. For the package type \<^verbatim>\<open>dev-legacy\<close>, when the dependency resolution, the
  frontend and \<^verbatim>\<open>get_requires_for_build_sdist\<close> return, \<^verbatim>\<open>perform_packaging\<close> returns one
  DevLegacyPackage on \<^verbatim>\<open>tox_root\<close> whose dependencies are the frontend's static
  \<^verbatim>\<open>requires\<close>, then the requirements for building the sdist, then the dependencies
  expanded with the extras: a plain concatenation, duplicates kept.
\<close>

theorem dev_legacy_dependencies:
  assumes "package for_env = ''dev-legacy''"
    and "get_package_dependencies E s = (Inr reqs, s1)"
    and "frontend_prop E s1 = (Inr f, s2)"
    and "ext_get_requires_for_build_sdist E (world s2) = (Inr for_sdist, w3)"
  shows "perform_packaging E for_env s =
     (Inr [DevLegacyPackage (tox_root (conf s))
             (requires f @ for_sdist @ ext_dependencies_with_extras E reqs (extras for_env))],
      s2\<lparr>world := w3, trace := trace s2 @ [Cmd ''get_requires_for_build_sdist'']\<rparr>)"
proof -
  have reqs: "packaging_reqs E for_env s = (Inr reqs, s1)"
    using assms(1,2) by (simp add: packaging_reqs_def py_bind_def py_return_def)
  have own: "requires_method E s1 = (Inr (requires f), s2)"
    using assms(3) by (simp add: requires_method_def py_bind_def py_return_def)
  have again: "frontend_prop E s2 = (Inr f, s2)"
    using frontend_prop_then_exists [OF assms(3)] by (rule frontend_prop_existing)
  have cnf: "conf s2 = conf s"
    using get_package_dependencies_static [OF assms(2)] frontend_prop_fields [OF assms(3)]
    by simp
  show ?thesis
    using assms(1,4) reqs own again cnf
    by (simp add: perform_packaging_def Let_def py_bind_def py_return_def ext_call_def)
qed


lemma demo_resolves:
  "get_package_dependencies demo_collab demo_fresh = (Inr [Requirement_of ''foo>=1''], demo_resolved)"
  by (simp add: run_defs demo_resolved_def demo_fresh_def demo_defs)

theorem dev_legacy_dependencies_witness:
  "package demo_dev_legacy = ''dev-legacy''
   \<and> get_package_dependencies demo_collab demo_fresh
       = (Inr [Requirement_of ''foo>=1''], demo_resolved)
   \<and> ext_get_requires_for_build_sdist demo_collab (world demo_resolved)
       = (Inr [Requirement_of ''setuptools''], world demo_resolved)
   \<and> fst (perform_packaging demo_collab demo_dev_legacy demo_fresh)
       = Inr [DevLegacyPackage ''/proj''
                [Requirement_of ''setuptools'', Requirement_of ''setuptools'',
                 Requirement_of ''foo>=1'']]"
proof -
  have p: "package demo_dev_legacy = ''dev-legacy''"
    by (simp add: demo_dev_legacy_def)
  have f: "frontend_prop demo_collab demo_resolved
      = (Inr \<lparr>requires = [Requirement_of ''setuptools''], into = Map.empty,
               backend_executor_private = None\<rparr>, demo_resolved)"
    by (simp add: frontend_prop_def demo_resolved_def)
  have g: "ext_get_requires_for_build_sdist demo_collab (world demo_resolved)
       = (Inr [Requirement_of ''setuptools''], world demo_resolved)"
    by (simp add: demo_defs)
  show ?thesis
    using p g demo_resolves dev_legacy_dependencies [OF p demo_resolves f g]
    by (simp add: demo_fresh_def demo_defs demo_dev_legacy_def)
qed




lemma other_wheel_env_static:
  "wheel_build_envs s' = wheel_build_envs s \<Longrightarrow>
   other_wheel_env for_env s' = other_wheel_env for_env s"
  by (simp add: other_wheel_env_def)








end
